theory Spec2Isabelle
  imports Main "HOL-Library.Char_ord" "HOL-Library.List_Lexorder"
begin

section \<open>Python values used by the service\<close>

text \<open>
  Python strings are modelled as \<^typ>\<open>string\<close>, a \<^typ>\<open>char\<close> standing for a code
  point below 256; strings with code points beyond are outside the model. On these,
  \<open>isspace\<close> is the white space \<open>str.strip()\<close> removes (the ASCII controls and
  blank, NEL and the no-break space) and \<open>lower_char\<close> is what \<open>str.lower()\<close> does
  to one character (the letters A to Z and the accented capitals of Latin-1).
\<close>

definition isspace :: "char \<Rightarrow> bool" where
  "isspace c = (c \<in> set [CHR 0x09, CHR 0x0A, CHR 0x0B, CHR 0x0C, CHR 0x0D,
                           CHR 0x1C, CHR 0x1D, CHR 0x1E, CHR 0x1F, CHR 0x20,
                           CHR 0x85, CHR 0xA0])"

definition strip :: "string \<Rightarrow> string" where
  "strip s = rev (dropWhile isspace (rev (dropWhile isspace s)))"

definition upper_letters :: string where
  "upper_letters =
     ''ABCDEFGHIJKLMNOPQRSTUVWXYZ'' @
     [CHR 0xC0, CHR 0xC1, CHR 0xC2, CHR 0xC3, CHR 0xC4, CHR 0xC5, CHR 0xC6, CHR 0xC7,
      CHR 0xC8, CHR 0xC9, CHR 0xCA, CHR 0xCB, CHR 0xCC, CHR 0xCD, CHR 0xCE, CHR 0xCF,
      CHR 0xD0, CHR 0xD1, CHR 0xD2, CHR 0xD3, CHR 0xD4, CHR 0xD5, CHR 0xD6,
      CHR 0xD8, CHR 0xD9, CHR 0xDA, CHR 0xDB, CHR 0xDC, CHR 0xDD, CHR 0xDE]"

definition lower_letters :: string where
  "lower_letters =
     ''abcdefghijklmnopqrstuvwxyz'' @
     [CHR 0xE0, CHR 0xE1, CHR 0xE2, CHR 0xE3, CHR 0xE4, CHR 0xE5, CHR 0xE6, CHR 0xE7,
      CHR 0xE8, CHR 0xE9, CHR 0xEA, CHR 0xEB, CHR 0xEC, CHR 0xED, CHR 0xEE, CHR 0xEF,
      CHR 0xF0, CHR 0xF1, CHR 0xF2, CHR 0xF3, CHR 0xF4, CHR 0xF5, CHR 0xF6,
      CHR 0xF8, CHR 0xF9, CHR 0xFA, CHR 0xFB, CHR 0xFC, CHR 0xFD, CHR 0xFE]"

definition lower_char :: "char \<Rightarrow> char" where
  "lower_char c =
     (case map_of (zip upper_letters lower_letters) c of
        None \<Rightarrow> c
      | Some l \<Rightarrow> l)"

definition lower :: "string \<Rightarrow> string" where
  "lower s = map lower_char s"

text \<open>\<open>sep.join(xs)\<close>\<close>

fun join :: "string \<Rightarrow> string list \<Rightarrow> string" where
  "join sep [] = []"
| "join sep [x] = x"
| "join sep (x # y # ys) = x @ sep @ join sep (y # ys)"

text \<open>\<open>value.replace("Z", "+00:00")\<close>\<close>

definition replace_Z :: "string \<Rightarrow> string" where
  "replace_Z s = concat (map (\<lambda>c. if c = CHR ''Z'' then ''+00:00'' else [c]) s)"

text \<open>
  A decoded JSON value; \<open>JNull\<close> is Python's \<open>None\<close>. Numbers are kept as
  integers: the service never looks inside one. A payload is the decoded request body,
  a dict from field names to values.
\<close>

datatype json =
    JNull
  | JBool bool
  | JNum int
  | JStr string
  | JList "json list"
  | JObj "(string \<times> json) list"

type_synonym payload = "string \<Rightarrow> json option"

text \<open>\<open>data.get(k)\<close>: \<open>None\<close> for a missing key.\<close>

definition dict_get :: "payload \<Rightarrow> string \<Rightarrow> json" where
  "dict_get data k = (case data k of None \<Rightarrow> JNull | Some v \<Rightarrow> v)"

fun is_str :: "json \<Rightarrow> bool" where
  "is_str (JStr s) = True"
| "is_str v = False"

fun is_list_of_str :: "json \<Rightarrow> bool" where
  "is_list_of_str (JList xs) = list_all is_str xs"
| "is_list_of_str v = False"

text \<open>
  The exceptions the service raises or receives from its libraries. All of them are
  subclasses of Python's \<open>Exception\<close>. \<open>TimeoutError\<close> is the builtin one that
  the retry wrapper tests for. \<open>Requests_Timeout\<close> is
  \<open>requests.exceptions.Timeout\<close>, which \<open>requests.post\<close> raises when the remote
  end times out (its subclasses ConnectTimeout and ReadTimeout included); it derives
  from \<open>RequestException\<close> and \<open>IOError\<close>, not from the builtin
  \<open>TimeoutError\<close>. \<open>HTTPError\<close> is what \<open>raise_for_status\<close> raises and
  \<open>RequestException\<close> any other error of the requests library.
  \<open>HTTPException code description\<close> is what \<open>flask.abort(code, description=...)\<close>
  raises.
\<close>

datatype exn =
    ValueError string
  | AttributeError string
  | HTTPException nat string
  | TimeoutError
  | Requests_Timeout
  | HTTPError nat
  | RequestException string
  | IntegrityError string
  | InterfaceError string

section \<open>models\<close>

text \<open>
  One record per table, with the columns of the model classes. The \<open>created_at\<close>
  columns are filled from the clock and read by nothing in the service; they are left
  out, and so is the \<open>customers\<close> table, which no request handler reads or writes.
  A message keeps its timestamp as the ISO string that was parsed, and the payload
  values it stores as the JSON values they are.
\<close>

record customer_comm_method =
  cm_id :: string
  cm_customer_id :: string
  cm_type :: string
  cm_value :: string
  cm_label :: "string option"

record customer_contact =
  cc_id :: string
  cc_customer_id :: string
  cc_first_name :: "string option"
  cc_last_name :: "string option"

record customer_contact_comm_method =
  ccm_id :: string
  ccm_customer_contact_id :: string
  ccm_type :: string
  ccm_value :: string

record conversation =
  cv_id :: string
  cv_customer_id :: string
  cv_customer_contact_id :: string
  cv_participants_key :: string

record message =
  m_id :: string
  m_conversation_id :: string
  m_from_customer_comm_id :: "string option"
  m_to_customer_comm_id :: "string option"
  m_from_contact_comm_id :: "string option"
  m_to_contact_comm_id :: "string option"
  m_messaging_provider_id :: json
  m_message_type :: json
  m_body :: json
  m_attachments :: "string option"
  m_timestamp :: string

record database =
  customer_comm_methods :: "customer_comm_method list"
  customer_contacts :: "customer_contact list"
  customer_contact_comm_methods :: "customer_contact_comm_method list"
  conversations :: "conversation list"
  messages :: "message list"

text \<open>
  Modelled from the spec: the enumeration \<open>ContactType\<close> of models/contact_type.py,
  which is not among the sources. The spec gives the comm-method type as the enum
  phone, email, whatsapp; the seed data stores these very strings in the \<open>type\<close>
  columns. \<open>ContactType(s)\<close> raises \<open>ValueError\<close> for any other string.
\<close>

definition ContactType :: "string \<Rightarrow> exn + string" where
  "ContactType s =
     (if s \<in> set [''phone'', ''email'', ''whatsapp''] then Inr s
      else Inl (ValueError ([CHR 0x27] @ s @ [CHR 0x27] @ '' is not a valid ContactType'')))"

subsection \<open>The database session\<close>

text \<open>
  \<open>db.session\<close>: \<open>committed\<close> is the durable content of the database,
  \<open>working\<close> is what the session's transaction sees, its own flushed rows included.
  \<open>uuid_source\<close> is the sequence of values the coming \<open>uuid.uuid4()\<close> calls
  return (the \<open>id\<close> column defaults draw from it at flush time).
\<close>

record session =
  committed :: database
  working :: database
  uuid_source :: "nat \<Rightarrow> string"

definition uuid4 :: "session \<Rightarrow> string \<times> session" where
  "uuid4 s = (uuid_source s 0, s\<lparr>uuid_source := (\<lambda>n. uuid_source s (Suc n))\<rparr>)"

definition commit :: "session \<Rightarrow> session" where
  "commit s = s\<lparr>committed := working s\<rparr>"

definition rollback :: "session \<Rightarrow> session" where
  "rollback s = s\<lparr>working := committed s\<rparr>"

text \<open>
  The INSERT statements a flush issues, with the constraints the tables declare: the
  primary keys, and \<open>uq_contact_comm_type_value\<close> on
  (customer_contact_id, type, value). SQLite does not enforce foreign keys unless asked
  to, and the service does not ask. A rejected INSERT raises \<open>IntegrityError\<close> and
  leaves the tables as they were.
\<close>

definition insert_customer_contact :: "customer_contact \<Rightarrow> session \<Rightarrow> exn + session" where
  "insert_customer_contact row s =
     (let db = working s in
      if cc_id row \<in> set (map cc_id (customer_contacts db))
      then Inl (IntegrityError ''UNIQUE constraint failed: customer_contacts.id'')
      else Inr (s\<lparr>working := db\<lparr>customer_contacts := customer_contacts db @ [row]\<rparr>\<rparr>))"

text \<open>SQLite's message when \<open>uq_contact_comm_type_value\<close> rejects a row.\<close>

definition uq_contact_comm_type_value_failed :: string where
  "uq_contact_comm_type_value_failed =
     ''UNIQUE constraint failed: customer_contact_comm_methods.customer_contact_id, '' @
     ''customer_contact_comm_methods.type, customer_contact_comm_methods.value''"

definition insert_customer_contact_comm_method ::
  "customer_contact_comm_method \<Rightarrow> session \<Rightarrow> exn + session" where
  "insert_customer_contact_comm_method row s =
     (let db = working s in
      if ccm_id row \<in> set (map ccm_id (customer_contact_comm_methods db))
      then Inl (IntegrityError ''UNIQUE constraint failed: customer_contact_comm_methods.id'')
      else if (ccm_customer_contact_id row, ccm_type row, ccm_value row)
                \<in> set (map (\<lambda>r. (ccm_customer_contact_id r, ccm_type r, ccm_value r))
                         (customer_contact_comm_methods db))
      then Inl (IntegrityError uq_contact_comm_type_value_failed)
      else Inr (s\<lparr>working :=
                  db\<lparr>customer_contact_comm_methods := customer_contact_comm_methods db @ [row]\<rparr>\<rparr>))"

definition insert_conversation :: "conversation \<Rightarrow> session \<Rightarrow> exn + session" where
  "insert_conversation row s =
     (let db = working s in
      if cv_id row \<in> set (map cv_id (conversations db))
      then Inl (IntegrityError ''UNIQUE constraint failed: conversations.id'')
      else Inr (s\<lparr>working := db\<lparr>conversations := conversations db @ [row]\<rparr>\<rparr>))"

text \<open>
  A value the SQLite driver can bind to a statement parameter: \<open>None\<close>, a number, a
  boolean or a string, but no list and no dict; for those the INSERT raises a driver
  error. \<open>message_type\<close> is declared NOT NULL.
\<close>

fun bindable :: "json \<Rightarrow> bool" where
  "bindable (JList xs) = False"
| "bindable (JObj kvs) = False"
| "bindable v = True"

definition insert_message :: "message \<Rightarrow> session \<Rightarrow> exn + session" where
  "insert_message row s =
     (let db = working s in
      if \<not> (bindable (m_messaging_provider_id row) \<and> bindable (m_message_type row)
             \<and> bindable (m_body row))
      then Inl (InterfaceError ''Error binding parameter: type is not supported'')
      else if m_message_type row = JNull
      then Inl (IntegrityError ''NOT NULL constraint failed: messages.message_type'')
      else if m_id row \<in> set (map m_id (messages db))
      then Inl (IntegrityError ''UNIQUE constraint failed: messages.id'')
      else Inr (s\<lparr>working := db\<lparr>messages := messages db @ [row]\<rparr>\<rparr>))"

section \<open>utils/db_util.py\<close>

text \<open>The rows the SELECT of \<open>get_customer_comm_method_id\<close> returns: (id, customer_id).\<close>

definition select_customer_comm_methods :: "database \<Rightarrow> string \<Rightarrow> string \<Rightarrow> (string \<times> string) list" where
  "select_customer_comm_methods db comm_type val =
     map (\<lambda>r. (cm_id r, cm_customer_id r))
       (filter (\<lambda>r. cm_type r = comm_type \<and> cm_value r = val) (customer_comm_methods db))"

definition get_customer_comm_method_id ::
  "string \<Rightarrow> string \<Rightarrow> session \<Rightarrow> (exn + string \<times> string) \<times> session" where
  "get_customer_comm_method_id comm_type0 value0 s =
     (let comm_type = lower (strip comm_type0);
          val = strip value0;
          result = select_customer_comm_methods (working s) comm_type val
      in if result = []
         then (Inl (ValueError (''customer communication method not found for value: '' @ val)), s)
         else if length result > 1
         then (Inl (ValueError
                 (''multiple customer communication methods found for the same value: '' @ val)), s)
         else (Inr (hd result), s))"

text \<open>
  The rows the SELECT of \<open>get_customer_contact_comm_method_id\<close> returns:
  (cm.id, cm.customer_contact_id) for each comm method joined with its contact, the
  contact belonging to the customer.
\<close>

definition select_contact_comm_methods ::
  "database \<Rightarrow> string \<Rightarrow> string \<Rightarrow> string \<Rightarrow> (string \<times> string) list" where
  "select_contact_comm_methods db customer_id comm_type val =
     concat (map (\<lambda>cm.
         map (\<lambda>cc. (ccm_id cm, ccm_customer_contact_id cm))
           (filter (\<lambda>cc. cc_id cc = ccm_customer_contact_id cm \<and> cc_customer_id cc = customer_id
                         \<and> ccm_type cm = comm_type \<and> ccm_value cm = val)
              (customer_contacts db)))
       (customer_contact_comm_methods db))"

text \<open>
  The part of \<open>get_customer_contact_comm_method_id\<close> after the query, given the
  normalised arguments and the query's rows: lines 89 to 115.
\<close>

definition contact_comm_method_from_rows ::
  "(string \<times> string) list \<Rightarrow> string \<Rightarrow> string \<Rightarrow> string \<Rightarrow> session
     \<Rightarrow> (exn + string \<times> string) \<times> session" where
  "contact_comm_method_from_rows result customer_id comm_type val s =
     (if length result > 1
      then (Inl (ValueError
              (''multiple customer contacts communication methods found for the same value: ''
               @ val)), s)
      else if result \<noteq> [] then (Inr (hd result), s)
      else
        (case uuid4 s of (contact_id, s1) \<Rightarrow>
         (case insert_customer_contact
                 \<lparr>cc_id = contact_id, cc_customer_id = customer_id,
                  cc_first_name = None, cc_last_name = None\<rparr> s1 of
            Inl e \<Rightarrow> (Inl e, s1)
          | Inr s2 \<Rightarrow>
              (case ContactType comm_type of
                 Inl e \<Rightarrow> (Inl e, s2)
               | Inr t \<Rightarrow>
                   (case uuid4 s2 of (comm_id, s3) \<Rightarrow>
                    (case insert_customer_contact_comm_method
                            \<lparr>ccm_id = comm_id, ccm_customer_contact_id = contact_id,
                             ccm_type = t, ccm_value = val\<rparr> s3 of
                       Inl e \<Rightarrow> (Inl e, s3)
                     | Inr s4 \<Rightarrow> (Inr (comm_id, contact_id), commit s4)))))))"

definition get_customer_contact_comm_method_id ::
  "string \<Rightarrow> string \<Rightarrow> string \<Rightarrow> session \<Rightarrow> (exn + string \<times> string) \<times> session" where
  "get_customer_contact_comm_method_id customer_id comm_type0 value0 s =
     (let comm_type = lower (strip comm_type0);
          val = strip value0;
          result = select_contact_comm_methods (working s) customer_id comm_type val
      in contact_comm_method_from_rows result customer_id comm_type val s)"

definition select_conversations :: "database \<Rightarrow> string \<Rightarrow> string list" where
  "select_conversations db participants_key =
     map cv_id (filter (\<lambda>r. cv_participants_key r = participants_key) (conversations db))"

definition get_conversation_id ::
  "string \<Rightarrow> string \<Rightarrow> string \<Rightarrow> session \<Rightarrow> (exn + string) \<times> session" where
  "get_conversation_id customer_id customer_contact_id participants_key s =
     (let result = select_conversations (working s) participants_key
      in if length result > 1
         then (Inl (ValueError
                 (''multiple conversations found for participants key: '' @ participants_key)), s)
         else if result \<noteq> [] then (Inr (hd result), s)
         else
           (case uuid4 s of (conversation_id, s1) \<Rightarrow>
            (case insert_conversation
                    \<lparr>cv_id = conversation_id, cv_customer_id = customer_id,
                     cv_customer_contact_id = customer_contact_id,
                     cv_participants_key = participants_key\<rparr> s1 of
               Inl e \<Rightarrow> (Inl e, s1)
             | Inr s2 \<Rightarrow> (Inr conversation_id, commit s2))))"

text \<open>
  \<open>save_message\<close> adds the object and commits; the flush gives the row its id. The
  message is passed without its id, as a function of it.
\<close>

definition save_message :: "(string \<Rightarrow> message) \<Rightarrow> session \<Rightarrow> (exn + message) \<times> session" where
  "save_message mk_message s =
     (case uuid4 s of (message_id, s1) \<Rightarrow>
      (case insert_message (mk_message message_id) s1 of
         Inl e \<Rightarrow> (Inl e, s1)
       | Inr s2 \<Rightarrow> (Inr (mk_message message_id), commit s2)))"

section \<open>utils/util.py\<close>

definition MAX_RETRIES :: nat where
  "MAX_RETRIES = 3"

definition RETRY_DELAY :: nat where
  "RETRY_DELAY = 5"

subsection \<open>Payload validation\<close>

text \<open>
  One entry of a payload field list: \<open>{"field": name, "type": t, "required": flag}\<close>.
  The declared types are \<open>str\<close>, \<open>datetime\<close> and \<open>list[str]\<close>.
\<close>

datatype ftype = T_str | T_datetime | T_list_str

record payload_field =
  pf_field :: string
  pf_type :: ftype
  pf_required :: bool

text \<open>
  The loop of \<open>check_one_of_fields\<close>: is some listed field present and, when it is
  a string, not blank?
\<close>

fun one_of_provided :: "payload \<Rightarrow> string list \<Rightarrow> bool" where
  "one_of_provided data [] = False"
| "one_of_provided data (f # fs) =
     (let v = dict_get data f in
      if v \<noteq> JNull \<and> (\<not> is_str v \<or> (case v of JStr s \<Rightarrow> strip s \<noteq> [] | _ \<Rightarrow> True))
      then True
      else one_of_provided data fs)"

definition check_one_of_fields :: "payload \<Rightarrow> string list option \<Rightarrow> exn + unit" where
  "check_one_of_fields data one_of_fields =
     (case one_of_fields of
        None \<Rightarrow> Inr ()
      | Some [] \<Rightarrow> Inr ()
      | Some fs \<Rightarrow>
          if one_of_provided data fs then Inr ()
          else Inl (HTTPException 400
                 (''one of the following fields must be provided in payload: '' @ join '', '' fs)))"

text \<open>
  The type check of one present value. \<open>fromisoformat\<close> stands for the library call
  \<open>datetime.fromisoformat\<close>: it tells whether the string parses.
\<close>

definition type_errors :: "(string \<Rightarrow> bool) \<Rightarrow> string \<Rightarrow> ftype \<Rightarrow> json \<Rightarrow> string list" where
  "type_errors fromisoformat field_name expected_type v =
     (case expected_type of
        T_list_str \<Rightarrow>
          if \<not> is_list_of_str v
          then [''payload field '' @ [CHR 0x27] @ field_name @ [CHR 0x27] @ '' must be a list of str'']
          else []
      | T_datetime \<Rightarrow>
          (case v of
             JStr s \<Rightarrow>
               if fromisoformat (if CHR ''Z'' \<in> set s then replace_Z s else s) then []
               else [''payload field '' @ [CHR 0x27] @ field_name @ [CHR 0x27]
                       @ '' must be a valid ISO8601 datetime string'']
           | _ \<Rightarrow> [''payload field '' @ [CHR 0x27] @ field_name @ [CHR 0x27]
                       @ '' must be an ISO8601 string representing datetime''])
      | T_str \<Rightarrow>
          if \<not> is_str v
          then [''payload field '' @ [CHR 0x27] @ field_name @ [CHR 0x27] @ '' must be of type str'']
          else [])"

text \<open>The body of the loop over \<open>payload_fields\<close>, for one item.\<close>

definition field_errors :: "(string \<Rightarrow> bool) \<Rightarrow> string \<Rightarrow> payload \<Rightarrow> payload_field \<Rightarrow> string list" where
  "field_errors fromisoformat message_type data item =
     (let field_name = pf_field item;
          expected_type = pf_type item;
          v = dict_get data field_name;
          required_field =
            (if message_type = ''sms'' \<and> field_name = ''body'' then True
             else if message_type = ''mms'' \<and> field_name = ''attachments'' then True
             else pf_required item)
      in if v = JNull
         then (if required_field then [''payload missing required field: '' @ field_name] else [])
         else type_errors fromisoformat field_name expected_type v)"

fun check_payload_fields ::
  "(string \<Rightarrow> bool) \<Rightarrow> string \<Rightarrow> payload \<Rightarrow> payload_field list \<Rightarrow> string list \<Rightarrow> string list" where
  "check_payload_fields fromisoformat message_type data [] errors = errors"
| "check_payload_fields fromisoformat message_type data (item # items) errors =
     check_payload_fields fromisoformat message_type data items
       (errors @ field_errors fromisoformat message_type data item)"

definition validate_payload ::
  "(string \<Rightarrow> bool) \<Rightarrow> payload \<Rightarrow> payload_field list \<Rightarrow> string list option \<Rightarrow> exn + unit" where
  "validate_payload fromisoformat data payload_fields one_of_fields =
     (case dict_get data ''type'' of
        JStr t \<Rightarrow>
          (let message_type = lower t in
           if message_type \<notin> set [''sms'', ''mms'', ''email'']
           then Inl (HTTPException 400
                  (''unsupported '' @ [CHR 0x27] @ ''type'' @ [CHR 0x27]
                   @ '' in payload. supported types are '' @ [CHR 0x27] @ ''sms'' @ [CHR 0x27]
                   @ '', '' @ [CHR 0x27] @ ''mms'' @ [CHR 0x27] @ '', and '' @ [CHR 0x27]
                   @ ''email'' @ [CHR 0x27]))
           else
             (case (if message_type = ''email'' then check_one_of_fields data one_of_fields
                    else Inr ()) of
                Inl e \<Rightarrow> Inl e
              | Inr u \<Rightarrow>
                  (let errors = check_payload_fields fromisoformat message_type data payload_fields []
                   in if errors \<noteq> [] then Inl (HTTPException 400 (join ''; '' errors))
                      else Inr ())))
      | _ \<Rightarrow> Inl (HTTPException 400
                  (''invalid '' @ [CHR 0x27] @ ''type'' @ [CHR 0x27] @ ''. '' @ [CHR 0x27] @ ''type''
                   @ [CHR 0x27] @ '' must be a non-empty string'')))"

subsection \<open>Delivery with retry\<close>

text \<open>
  The outside world (the network and the clock) is a state of an arbitrary type
  \<open>'w\<close>. \<open>requests_post url data\<close> stands for \<open>requests.post\<close>: it changes the
  world and either raises or returns the response's status code. \<open>sleep\<close> stands for
  \<open>time.sleep\<close>.
\<close>

definition send_message ::
  "(string \<Rightarrow> payload \<Rightarrow> 'w \<Rightarrow> (exn + nat) \<times> 'w) \<Rightarrow> string \<Rightarrow> payload \<Rightarrow> 'w \<Rightarrow> (exn + bool) \<times> 'w" where
  "send_message requests_post api_url message_data w =
     (case requests_post api_url message_data w of
        (Inl e, w') \<Rightarrow> (Inl e, w')
      | (Inr status_code, w') \<Rightarrow>
          if 400 \<le> status_code \<and> status_code < 600 then (Inl (HTTPError status_code), w')
          else (Inr True, w'))"

text \<open>
  The \<open>for attempt in range(1, MAX_RETRIES + 1)\<close> loop of
  \<open>api_retry_with_backoff\<close>, over the attempt numbers still to run. Leaving the loop,
  by exhaustion or by \<open>break\<close>, reaches \<open>return False\<close>.
\<close>

fun retry_attempts ::
  "(nat \<Rightarrow> 'w \<Rightarrow> 'w) \<Rightarrow> ('w \<Rightarrow> (exn + bool) \<times> 'w) \<Rightarrow> nat list \<Rightarrow> 'w \<Rightarrow> (exn + bool) \<times> 'w" where
  "retry_attempts sleep func [] w = (Inr False, w)"
| "retry_attempts sleep func (attempt # rest) w =
     (case func w of
        (Inr r, w') \<Rightarrow> (Inr r, w')
      | (Inl TimeoutError, w') \<Rightarrow>
          retry_attempts sleep func rest (sleep (RETRY_DELAY * 2 ^ (attempt - 1)) w')
      | (Inl e, w') \<Rightarrow> (Inr False, w'))"

definition api_retry_with_backoff ::
  "(nat \<Rightarrow> 'w \<Rightarrow> 'w) \<Rightarrow> ('w \<Rightarrow> (exn + bool) \<times> 'w) \<Rightarrow> 'w \<Rightarrow> (exn + bool) \<times> 'w" where
  "api_retry_with_backoff sleep func w = retry_attempts sleep func [1..<MAX_RETRIES + 1] w"

section \<open>app.py\<close>

text \<open>
  The library calls the request handlers depend on, gathered in one record:
  \<open>datetime.fromisoformat\<close> (does the string parse?), \<open>json.dumps\<close>,
  \<open>requests.post\<close> and \<open>time.sleep\<close>.
\<close>

record 'w library =
  lib_fromisoformat :: "string \<Rightarrow> bool"
  lib_json_dumps :: "json \<Rightarrow> string"
  lib_requests_post :: "string \<Rightarrow> payload \<Rightarrow> 'w \<Rightarrow> (exn + nat) \<times> 'w"
  lib_sleep :: "nat \<Rightarrow> 'w \<Rightarrow> 'w"

definition SMS_PAYLOAD_FIELDS :: "payload_field list" where
  "SMS_PAYLOAD_FIELDS =
     [\<lparr>pf_field = ''from'', pf_type = T_str, pf_required = True\<rparr>,
      \<lparr>pf_field = ''to'', pf_type = T_str, pf_required = True\<rparr>,
      \<lparr>pf_field = ''type'', pf_type = T_str, pf_required = True\<rparr>,
      \<lparr>pf_field = ''messaging_provider_id'', pf_type = T_str, pf_required = True\<rparr>,
      \<lparr>pf_field = ''timestamp'', pf_type = T_datetime, pf_required = True\<rparr>,
      \<lparr>pf_field = ''body'', pf_type = T_str, pf_required = False\<rparr>,
      \<lparr>pf_field = ''attachments'', pf_type = T_list_str, pf_required = False\<rparr>]"

definition SMS_OUTBOUND_URL :: string where
  "SMS_OUTBOUND_URL = ''https://webhook.site/957367cc-5c8d-44c8-a27e-71ecb2098747''"

definition EMAIL_PAYLOAD_FIELDS :: "payload_field list" where
  "EMAIL_PAYLOAD_FIELDS =
     [\<lparr>pf_field = ''from'', pf_type = T_str, pf_required = True\<rparr>,
      \<lparr>pf_field = ''to'', pf_type = T_str, pf_required = True\<rparr>,
      \<lparr>pf_field = ''xillio_id'', pf_type = T_str, pf_required = True\<rparr>,
      \<lparr>pf_field = ''timestamp'', pf_type = T_datetime, pf_required = True\<rparr>,
      \<lparr>pf_field = ''body'', pf_type = T_str, pf_required = False\<rparr>,
      \<lparr>pf_field = ''attachments'', pf_type = T_list_str, pf_required = False\<rparr>]"

definition EMAIL_OUTBOUND_URL :: string where
  "EMAIL_OUTBOUND_URL = ''https://webhook.site/957367cc-5c8d-44c8-a27e-71ecb2098747''"

text \<open>
  The JSON bodies the handlers answer with:
  \<^item> \<open>Missing_json\<close>: \<open>{"error": "missing json payload"}\<close>;
  \<^item> \<open>Message_received i\<close>: \<open>{"status": "message received successfully", "message_id": i}\<close>;
  \<^item> \<open>Message_sent i\<close>: \<open>{"status": "message sent successfully", "message_id": i}\<close>;
  \<^item> \<open>Failed_to_send\<close>: \<open>{"status": "message failed to send", "error": "failed to send message"}\<close>;
  \<^item> \<open>Processing_error d c e\<close>: \<open>{"error": "error processing d c payload: e"}\<close>.
  A response is a body with its HTTP status code.
\<close>

datatype response_body =
    Missing_json
  | Message_received string
  | Message_sent string
  | Failed_to_send
  | Processing_error string string exn

type_synonym response = "response_body \<times> nat"

text \<open>
  \<open>get_participants\<close>. The db_util functions call \<open>value.strip()\<close> first, which
  raises \<open>AttributeError\<close> when the address is not a string.
\<close>

definition get_participants ::
  "payload \<Rightarrow> string \<Rightarrow> string \<Rightarrow> session
     \<Rightarrow> (exn + string \<times> string \<times> string \<times> string \<times> string) \<times> session" where
  "get_participants data message_direction comm_type s =
     (let from_address = dict_get data ''from'';
          to_address = dict_get data ''to''
      in case (case (if message_direction = ''inbound'' then to_address else from_address) of
                 JStr v \<Rightarrow> get_customer_comm_method_id comm_type v s
               | _ \<Rightarrow> (Inl (AttributeError ''strip''), s)) of
           (Inl e, s1) \<Rightarrow> (Inl e, s1)
         | (Inr (customer_comm_method_id, customer_id), s1) \<Rightarrow>
             (case (case (if message_direction = ''inbound'' then from_address else to_address) of
                      JStr v \<Rightarrow> get_customer_contact_comm_method_id customer_id comm_type v s1
                    | _ \<Rightarrow> (Inl (AttributeError ''strip''), s1)) of
                (Inl e, s2) \<Rightarrow> (Inl e, s2)
              | (Inr (contact_comm_method_id, customer_contact_id), s2) \<Rightarrow>
                  (Inr (customer_comm_method_id, contact_comm_method_id, customer_id,
                        customer_contact_id,
                        join '','' (sort [customer_id, customer_contact_id])), s2)))"

definition create_message ::
  "'w library \<Rightarrow> payload \<Rightarrow> string \<Rightarrow> string \<Rightarrow> string \<Rightarrow> string \<Rightarrow> string \<Rightarrow> session
     \<Rightarrow> (exn + message) \<times> session" where
  "create_message lib data conversation_id customer_comm_method_id contact_comm_method_id
       message_direction comm_type s =
     (let messaging_provider_id =
            dict_get data (if comm_type = ''phone'' then ''messaging_provider_id'' else ''xillio_id'');
          message_type = dict_get data ''type'';
          body = dict_get data ''body'';
          attachments =
            (if dict_get data ''attachments'' \<noteq> JNull
             then Some (lib_json_dumps lib (dict_get data ''attachments'')) else None)
      in case dict_get data ''timestamp'' of
           JStr ts \<Rightarrow>
             if lib_fromisoformat lib (replace_Z ts)
             then save_message (\<lambda>i.
                    \<lparr>m_id = i,
                     m_conversation_id = conversation_id,
                     m_from_customer_comm_id =
                       (if message_direction = ''outbound'' then Some customer_comm_method_id else None),
                     m_to_customer_comm_id =
                       (if message_direction = ''inbound'' then Some customer_comm_method_id else None),
                     m_from_contact_comm_id =
                       (if message_direction = ''inbound'' then Some contact_comm_method_id else None),
                     m_to_contact_comm_id =
                       (if message_direction = ''outbound'' then Some contact_comm_method_id else None),
                     m_messaging_provider_id = messaging_provider_id,
                     m_message_type = message_type,
                     m_body = body,
                     m_attachments = attachments,
                     m_timestamp = replace_Z ts\<rparr>) s
             else (Inl (ValueError (''Invalid isoformat string: '' @ [CHR 0x27] @ replace_Z ts @ [CHR 0x27])), s)
         | _ \<Rightarrow> (Inl (AttributeError ''replace''), s))"

text \<open>The \<open>try\<close> block of \<open>process_inbound_message\<close>.\<close>

definition inbound_try ::
  "'w library \<Rightarrow> payload \<Rightarrow> string \<Rightarrow> payload_field list \<Rightarrow> string list option \<Rightarrow> session
     \<Rightarrow> (exn + response) \<times> session" where
  "inbound_try lib data comm_type payload_fields optional_fields s =
     (case validate_payload (lib_fromisoformat lib) data payload_fields optional_fields of
        Inl e \<Rightarrow> (Inl e, s)
      | Inr u \<Rightarrow>
          (case get_participants data ''inbound'' comm_type s of
             (Inl e, s1) \<Rightarrow> (Inl e, s1)
           | (Inr (customer_comm_method_id, contact_comm_method_id, customer_id,
                   customer_contact_id, participants_key), s1) \<Rightarrow>
               (case get_conversation_id customer_id customer_contact_id participants_key s1 of
                  (Inl e, s2) \<Rightarrow> (Inl e, s2)
                | (Inr conversation_id, s2) \<Rightarrow>
                    (case create_message lib data conversation_id customer_comm_method_id
                            contact_comm_method_id ''inbound'' comm_type s2 of
                       (Inl e, s3) \<Rightarrow> (Inl e, s3)
                     | (Inr message, s3) \<Rightarrow>
                         (Inr (Message_received (m_id message), 200), s3)))))"

text \<open>\<open>process_inbound_message\<close>: \<open>except Exception\<close> answers 400.\<close>

definition process_inbound_message ::
  "'w library \<Rightarrow> payload \<Rightarrow> string \<Rightarrow> payload_field list \<Rightarrow> string list option \<Rightarrow> session
     \<Rightarrow> response \<times> session" where
  "process_inbound_message lib data comm_type payload_fields optional_fields s =
     (case inbound_try lib data comm_type payload_fields optional_fields s of
        (Inr r, s') \<Rightarrow> (r, s')
      | (Inl e, s') \<Rightarrow> ((Processing_error ''inbound'' comm_type e, 400), s'))"

text \<open>The \<open>try\<close> block of \<open>process_outbound_message\<close>.\<close>

definition outbound_try ::
  "'w library \<Rightarrow> payload \<Rightarrow> string \<Rightarrow> payload_field list \<Rightarrow> string \<Rightarrow> session \<Rightarrow> 'w
     \<Rightarrow> (exn + response) \<times> session \<times> 'w" where
  "outbound_try lib data comm_type payload_fields outbound_url s w =
     (case validate_payload (lib_fromisoformat lib) data payload_fields None of
        Inl e \<Rightarrow> (Inl e, s, w)
      | Inr u \<Rightarrow>
          (case get_participants data ''outbound'' comm_type s of
             (Inl e, s1) \<Rightarrow> (Inl e, s1, w)
           | (Inr (customer_comm_method_id, contact_comm_method_id, customer_id,
                   customer_contact_id, participants_key), s1) \<Rightarrow>
               (case api_retry_with_backoff (lib_sleep lib)
                       (send_message (lib_requests_post lib) outbound_url data) w of
                  (Inl e, w1) \<Rightarrow> (Inl e, s1, w1)
                | (Inr message_sent, w1) \<Rightarrow>
                    if \<not> message_sent then (Inr (Failed_to_send, 500), s1, w1)
                    else
                      (case get_conversation_id customer_id customer_contact_id
                              participants_key s1 of
                         (Inl e, s2) \<Rightarrow> (Inl e, s2, w1)
                       | (Inr conversation_id, s2) \<Rightarrow>
                           (case create_message lib data conversation_id customer_comm_method_id
                                   contact_comm_method_id ''outbound'' comm_type s2 of
                              (Inl e, s3) \<Rightarrow> (Inl e, s3, w1)
                            | (Inr message, s3) \<Rightarrow>
                                (Inr (Message_sent (m_id message), 200), s3, w1))))))"

definition process_outbound_message ::
  "'w library \<Rightarrow> payload \<Rightarrow> string \<Rightarrow> payload_field list \<Rightarrow> string \<Rightarrow> session \<Rightarrow> 'w
     \<Rightarrow> response \<times> session \<times> 'w" where
  "process_outbound_message lib data comm_type payload_fields outbound_url s w =
     (case outbound_try lib data comm_type payload_fields outbound_url s w of
        (Inr r, s', w') \<Rightarrow> (r, s', w')
      | (Inl e, s', w') \<Rightarrow> ((Processing_error ''outbound'' comm_type e, 400), s', w'))"

subsection \<open>Routes\<close>

text \<open>
  \<open>request.get_json()\<close> gives the decoded body, or \<open>None\<close>. When the request ends,
  Flask-SQLAlchemy removes the session, which rolls back whatever was not committed.
\<close>

definition inbound_sms :: "'w library \<Rightarrow> payload option \<Rightarrow> session \<Rightarrow> response \<times> session" where
  "inbound_sms lib request_json s =
     (case request_json of
        None \<Rightarrow> ((Missing_json, 400), rollback s)
      | Some data \<Rightarrow>
          (case process_inbound_message lib data ''phone'' SMS_PAYLOAD_FIELDS None s of
             (r, s') \<Rightarrow> (r, rollback s')))"

definition outbound_sms ::
  "'w library \<Rightarrow> payload option \<Rightarrow> session \<Rightarrow> 'w \<Rightarrow> response \<times> session \<times> 'w" where
  "outbound_sms lib request_json s w =
     (case request_json of
        None \<Rightarrow> ((Missing_json, 400), rollback s, w)
      | Some data \<Rightarrow>
          (case process_outbound_message lib data ''phone''
                  (filter (\<lambda>f. pf_field f \<noteq> ''messaging_provider_id'') SMS_PAYLOAD_FIELDS)
                  SMS_OUTBOUND_URL s w of
             (r, s', w') \<Rightarrow> (r, rollback s', w')))"

definition inbound_email :: "'w library \<Rightarrow> payload option \<Rightarrow> session \<Rightarrow> response \<times> session" where
  "inbound_email lib request_json s =
     (case request_json of
        None \<Rightarrow> ((Missing_json, 400), rollback s)
      | Some data \<Rightarrow>
          (case process_inbound_message lib (data(''type'' \<mapsto> JStr ''email'')) ''email''
                  EMAIL_PAYLOAD_FIELDS (Some [''body'', ''attachments'']) s of
             (r, s') \<Rightarrow> (r, rollback s')))"

definition outbound_email ::
  "'w library \<Rightarrow> payload option \<Rightarrow> session \<Rightarrow> 'w \<Rightarrow> response \<times> session \<times> 'w" where
  "outbound_email lib request_json s w =
     (case request_json of
        None \<Rightarrow> ((Missing_json, 400), rollback s, w)
      | Some data \<Rightarrow>
          (case process_outbound_message lib (data(''type'' \<mapsto> JStr ''email'')) ''email''
                  (filter (\<lambda>f. pf_field f \<noteq> ''xillio_id'') EMAIL_PAYLOAD_FIELDS)
                  EMAIL_OUTBOUND_URL s w of
             (r, s', w') \<Rightarrow> (r, rollback s', w')))"

section \<open>Requests one after another, and two that overlap\<close>

text \<open>The same call made \<open>n\<close> times in sequence, each on the state the previous one left.\<close>

fun sequential_calls :: "nat \<Rightarrow> (session \<Rightarrow> 'r \<times> session) \<Rightarrow> session \<Rightarrow> 'r list \<times> session" where
  "sequential_calls 0 f s = ([], s)"
| "sequential_calls (Suc n) f s =
     (case f s of (r, s1) \<Rightarrow>
      (case sequential_calls n f s1 of (rs, s2) \<Rightarrow> (r # rs, s2)))"

text \<open>
  Two calls of \<open>get_customer_contact_comm_method_id\<close> with the same arguments, from
  two requests served at the same time, in the schedule where both run their SELECT
  before either runs its INSERTs. Each request then continues from the rows its own
  query returned; the writes of the first are committed when the second writes.
\<close>

definition two_overlapping_calls ::
  "string \<Rightarrow> string \<Rightarrow> string \<Rightarrow> session
     \<Rightarrow> (exn + string \<times> string) \<times> (exn + string \<times> string) \<times> session" where
  "two_overlapping_calls customer_id comm_type0 value0 s =
     (let comm_type = lower (strip comm_type0);
          val = strip value0;
          result_a = select_contact_comm_methods (working s) customer_id comm_type val;
          result_b = select_contact_comm_methods (working s) customer_id comm_type val
      in case contact_comm_method_from_rows result_a customer_id comm_type val s of
           (ra, s1) \<Rightarrow>
             (case contact_comm_method_from_rows result_b customer_id comm_type val s1 of
                (rb, s2) \<Rightarrow> (ra, rb, s2)))"

section \<open>Example data\<close>

text \<open>
  A world for examples: the log of what happened, a delivery attempt or a sleep of so
  many seconds.
\<close>

datatype event = Attempt | Slept nat

text \<open>
  The rows of \<open>create_sample_data\<close>, with short ids: two customers, their comm
  methods, one contact each.
\<close>

definition example_db :: database where
  "example_db =
     \<lparr>customer_comm_methods =
        [\<lparr>cm_id = ''m1'', cm_customer_id = ''c1'', cm_type = ''phone'',
          cm_value = ''+12155550000'', cm_label = Some ''main phone number''\<rparr>,
         \<lparr>cm_id = ''m2'', cm_customer_id = ''c1'', cm_type = ''email'',
          cm_value = ''info@keystonecarpentry.com'', cm_label = Some ''main email''\<rparr>,
         \<lparr>cm_id = ''m3'', cm_customer_id = ''c1'', cm_type = ''whatsapp'',
          cm_value = ''+12155550000'', cm_label = Some ''whatsapp number''\<rparr>,
         \<lparr>cm_id = ''m4'', cm_customer_id = ''c2'', cm_type = ''phone'',
          cm_value = ''+12155551111'', cm_label = Some ''main number''\<rparr>,
         \<lparr>cm_id = ''m5'', cm_customer_id = ''c2'', cm_type = ''email'',
          cm_value = ''info@hydronyc.com'', cm_label = Some ''main email''\<rparr>],
      customer_contacts =
        [\<lparr>cc_id = ''k1'', cc_customer_id = ''c1'',
          cc_first_name = Some ''Jane'', cc_last_name = Some ''Doe''\<rparr>,
         \<lparr>cc_id = ''k2'', cc_customer_id = ''c2'',
          cc_first_name = Some ''John'', cc_last_name = Some ''Doe''\<rparr>],
      customer_contact_comm_methods =
        [\<lparr>ccm_id = ''n1'', ccm_customer_contact_id = ''k1'', ccm_type = ''phone'',
          ccm_value = ''+15551230001''\<rparr>,
         \<lparr>ccm_id = ''n2'', ccm_customer_contact_id = ''k1'', ccm_type = ''email'',
          ccm_value = ''janed@gmail.com''\<rparr>,
         \<lparr>ccm_id = ''n3'', ccm_customer_contact_id = ''k2'', ccm_type = ''phone'',
          ccm_value = ''+15551230002''\<rparr>],
      conversations = [],
      messages = []\<rparr>"

text \<open>
  The same with two more rows, each allowed by the tables' constraints: the second
  customer also lists the first one's phone number, and a second contact of the first
  customer has Jane's phone number.
\<close>

definition shared_numbers_db :: database where
  "shared_numbers_db =
     example_db
       \<lparr>customer_comm_methods := customer_comm_methods example_db @
          [\<lparr>cm_id = ''m6'', cm_customer_id = ''c2'', cm_type = ''phone'',
            cm_value = ''+12155550000'', cm_label = None\<rparr>],
        customer_contacts := customer_contacts example_db @
          [\<lparr>cc_id = ''k3'', cc_customer_id = ''c1'',
            cc_first_name = None, cc_last_name = None\<rparr>],
        customer_contact_comm_methods := customer_contact_comm_methods example_db @
          [\<lparr>ccm_id = ''n4'', ccm_customer_contact_id = ''k3'', ccm_type = ''phone'',
            ccm_value = ''+15551230001''\<rparr>]\<rparr>"

text \<open>
  The sample rows with one more comm method, left behind by a contact that is gone:
  its \<open>customer_contact_id\<close> is the id the next new contact will get.
\<close>

definition orphan_db :: database where
  "orphan_db =
     example_db
       \<lparr>customer_contact_comm_methods := customer_contact_comm_methods example_db @
          [\<lparr>ccm_id = ''n9'', ccm_customer_contact_id = ''u'', ccm_type = ''phone'',
            ccm_value = ''+15559990000''\<rparr>]\<rparr>"

text \<open>The ids to come: u, uu, uuu and so on.\<close>

definition example_uuids :: "nat \<Rightarrow> string" where
  "example_uuids n = replicate (Suc n) (CHR ''u'')"

definition example_session :: session where
  "example_session = \<lparr>committed = example_db, working = example_db, uuid_source = example_uuids\<rparr>"

definition orphan_session :: session where
  "orphan_session = \<lparr>committed = orphan_db, working = orphan_db, uuid_source = example_uuids\<rparr>"

definition shared_numbers_session :: session where
  "shared_numbers_session =
     \<lparr>committed = shared_numbers_db, working = shared_numbers_db, uuid_source = example_uuids\<rparr>"


text \<open>Two phone payloads: an SMS with no body and an MMS with no attachments.\<close>

definition sms_no_body :: payload where
  "sms_no_body =
     [''from'' \<mapsto> JStr ''+15559990000'', ''to'' \<mapsto> JStr ''+12155550000'',
      ''type'' \<mapsto> JStr ''sms'', ''messaging_provider_id'' \<mapsto> JStr ''p1'',
      ''timestamp'' \<mapsto> JStr ''2024-11-01T14:00:00Z'']"

definition mms_no_attachments :: payload where
  "mms_no_attachments =
     [''from'' \<mapsto> JStr ''+15559990000'', ''to'' \<mapsto> JStr ''+12155550000'',
      ''type'' \<mapsto> JStr ''MMS'', ''messaging_provider_id'' \<mapsto> JStr ''p2'',
      ''timestamp'' \<mapsto> JStr ''2024-11-01T14:00:00Z'', ''body'' \<mapsto> JStr ''look'']"

text \<open>
  Payloads between the first customer and Jane: an SMS from her, an SMS to her, and an
  email to her with neither body nor attachments.
\<close>

definition sms_from_jane :: payload where
  "sms_from_jane =
     [''from'' \<mapsto> JStr ''+15551230001'', ''to'' \<mapsto> JStr ''+12155550000'',
      ''type'' \<mapsto> JStr ''sms'', ''messaging_provider_id'' \<mapsto> JStr ''p3'',
      ''timestamp'' \<mapsto> JStr ''2024-11-01T14:00:00Z'', ''body'' \<mapsto> JStr ''hi'']"

definition sms_to_jane :: payload where
  "sms_to_jane =
     [''from'' \<mapsto> JStr ''+12155550000'', ''to'' \<mapsto> JStr ''+15551230001'',
      ''type'' \<mapsto> JStr ''sms'',
      ''timestamp'' \<mapsto> JStr ''2024-11-01T14:00:00Z'', ''body'' \<mapsto> JStr ''hello'']"

definition empty_email_to_jane :: payload where
  "empty_email_to_jane =
     [''from'' \<mapsto> JStr ''info@keystonecarpentry.com'', ''to'' \<mapsto> JStr ''janed@gmail.com'',
      ''timestamp'' \<mapsto> JStr ''2024-11-01T14:00:00Z'']"

text \<open>
  Library behaviour for the examples, over the world of logged events. The timestamp of
  the example payloads parses; the payloads carry no attachments, so what
  \<open>json.dumps\<close> returns does not matter. The remote endpoint answers 200 in
  \<open>example_library\<close> and 500 in \<open>rejecting_library\<close>. In
  \<open>requests_timeout_library\<close> it times out on every call, which
  \<open>requests.post\<close> reports as \<open>requests.exceptions.Timeout\<close>; in
  \<open>timeout_library\<close> every call raises the builtin \<open>TimeoutError\<close> instead.
\<close>

definition example_library :: "event list library" where
  "example_library =
     \<lparr>lib_fromisoformat = (\<lambda>ts. ts = ''2024-11-01T14:00:00+00:00''),
      lib_json_dumps = (\<lambda>j. ''[]''),
      lib_requests_post = (\<lambda>url data t. (Inr 200, t @ [Attempt])),
      lib_sleep = (\<lambda>d t. t @ [Slept d])\<rparr>"

definition timeout_library :: "event list library" where
  "timeout_library =
     example_library\<lparr>lib_requests_post := (\<lambda>url data t. (Inl TimeoutError, t @ [Attempt]))\<rparr>"

definition requests_timeout_library :: "event list library" where
  "requests_timeout_library =
     example_library\<lparr>lib_requests_post := (\<lambda>url data t. (Inl Requests_Timeout, t @ [Attempt]))\<rparr>"

definition rejecting_library :: "event list library" where
  "rejecting_library =
     example_library\<lparr>lib_requests_post := (\<lambda>url data t. (Inr 500, t @ [Attempt]))\<rparr>"

section \<open>Properties of the retry wrapper\<close>

lemma attempts_range: "[1..<MAX_RETRIES + 1] = [1, 2, 3]"
  by (simp add: MAX_RETRIES_def upt_rec)

lemma api_retry_unfold:
  "api_retry_with_backoff sleep func w = retry_attempts sleep func [1, 2, 3] w"
  by (simp only: api_retry_with_backoff_def attempts_range)

text \<open>
  The schedule for the builtin exception. When every call of the wrapped function
  raises \<open>TimeoutError\<close>, the wrapper calls it exactly three times: the world it
  leaves is the one reached by call, sleep, call, sleep, call, sleep. The sleep before
  attempt \<open>k\<close> (for \<open>k = 2, 3\<close>) lasts \<open>RETRY_DELAY * 2 ^ (k - 2)\<close> seconds,
  that is 5 and 10, and the wrapper then returns \<open>False\<close> with no fourth call.
  After the third timeout the loop body still sleeps \<open>RETRY_DELAY * 2 ^ 2\<close> seconds
  before it returns.
\<close>

lemma timeout_error_schedule:
  assumes "\<forall>u. fst (func u) = Inl TimeoutError"
  shows "api_retry_with_backoff sleep func w =
           (Inr False,
            sleep (RETRY_DELAY * 2 ^ 2) (snd (func
              (sleep (RETRY_DELAY * 2 ^ (3 - 2)) (snd (func
                (sleep (RETRY_DELAY * 2 ^ (2 - 2)) (snd (func w)))))))))
         \<and> RETRY_DELAY * 2 ^ (2 - 2) = 5 \<and> RETRY_DELAY * 2 ^ (3 - 2) = 10"
proof -
  have step: "\<And>a rest u. retry_attempts sleep func (a # rest) u =
      retry_attempts sleep func rest (sleep (RETRY_DELAY * 2 ^ (a - 1)) (snd (func u)))"
  proof -
    fix a rest u
    from assms have "fst (func u) = Inl TimeoutError" by simp
    then obtain u' where "func u = (Inl TimeoutError, u')" by (cases "func u") auto
    then show "retry_attempts sleep func (a # rest) u =
      retry_attempts sleep func rest (sleep (RETRY_DELAY * 2 ^ (a - 1)) (snd (func u)))"
      by simp
  qed
  show ?thesis
    unfolding api_retry_with_backoff_def attempts_range
    by (simp add: step RETRY_DELAY_def del: retry_attempts.simps(2))
qed

lemma timeout_error_schedule_example:
  "(\<forall>u. fst ((\<lambda>t. (Inl TimeoutError, t @ [Attempt])) u) = Inl TimeoutError)
   \<and> api_retry_with_backoff (\<lambda>d t. t @ [Slept d]) (\<lambda>t. (Inl TimeoutError, t @ [Attempt])) []
       = (Inr False, [Attempt, Slept 5, Attempt, Slept 10, Attempt, Slept 20])"
  using timeout_error_schedule
    [of "\<lambda>t. (Inl TimeoutError, t @ [Attempt])" "\<lambda>d t. t @ [Slept d]" "[]"]
  by simp

text \<open>
  What a timeout of the remote end does. \<open>send_message\<close> passes on the exception of
  \<open>requests.post\<close>; when that is \<open>requests.exceptions.Timeout\<close>, the wrapper's
  \<open>except TimeoutError\<close> does not match, \<open>except Exception\<close> does, and the loop is
  left after the first attempt, with no sleep.
\<close>

lemma requests_timeout_not_retried:
  assumes "requests_post api_url message_data w = (Inl Requests_Timeout, w')"
  shows "api_retry_with_backoff sleep (send_message requests_post api_url message_data) w
           = (Inr False, w')"
  using assms by (simp add: api_retry_unfold send_message_def)

text \<open>
  Claim C3. The delivery function of the service is \<open>send_message\<close>. With a remote
  end that times out on every call, \<open>requests.post\<close> raises
  \<open>requests.exceptions.Timeout\<close> each time, and the retry wrapper makes one delivery
  attempt, does not sleep, and returns \<open>False\<close>: not the three attempts with delays
  of 5 and 10 seconds of the claim. That schedule is what the wrapper does when the
  exception is the builtin \<open>TimeoutError\<close>, followed there by a further sleep of 20
  seconds before it returns.
\<close>

theorem remote_timeout_single_attempt:
  "api_retry_with_backoff (lib_sleep requests_timeout_library)
     (send_message (lib_requests_post requests_timeout_library) SMS_OUTBOUND_URL sms_to_jane) []
     = (Inr False, [Attempt])
   \<and> api_retry_with_backoff (lib_sleep timeout_library)
     (send_message (lib_requests_post timeout_library) SMS_OUTBOUND_URL sms_to_jane) []
     = (Inr False, [Attempt, Slept 5, Attempt, Slept 10, Attempt, Slept 20])"
  by (simp add: api_retry_unfold send_message_def RETRY_DELAY_def example_library_def
      timeout_library_def requests_timeout_library_def)

text \<open>
  Claim C7. A non-timeout exception from the delivery function ends the loop at once,
  whatever attempts remain: the wrapper returns \<open>False\<close> in the world that call left,
  with no sleep and no further call. Whenever no call of the delivery function returns
  \<open>True\<close> (it raises, a timeout or not, or returns \<open>False\<close>), the wrapper returns
  \<open>False\<close>; and the wrapper never lets an exception through.
\<close>

theorem retry_failure_is_false:
  "(func w = (Inl e, w') \<and> e \<noteq> TimeoutError \<longrightarrow>
      retry_attempts sleep func (attempt # rest) w = (Inr False, w'))
   \<and> ((\<forall>u. fst (func u) \<noteq> Inr True) \<longrightarrow>
        fst (api_retry_with_backoff sleep func w) = Inr False)
   \<and> (\<forall>x. fst (api_retry_with_backoff sleep func w) \<noteq> Inl x)"
proof (intro conjI impI allI)
  assume "func w = (Inl e, w') \<and> e \<noteq> TimeoutError"
  then show "retry_attempts sleep func (attempt # rest) w = (Inr False, w')"
    by (cases e) simp_all
next
  assume never: "\<forall>u. fst (func u) \<noteq> Inr True"
  have "fst (retry_attempts sleep func as u) = Inr False" for as u
  proof (induction as arbitrary: u)
    case Nil
    show ?case by simp
  next
    case (Cons a as)
    from never have "fst (func u) \<noteq> Inr True" by simp
    with Cons show ?case
      by (cases "func u") (auto split: sum.splits exn.splits)
  qed
  then show "fst (api_retry_with_backoff sleep func w) = Inr False"
    by (simp add: api_retry_with_backoff_def)
next
  fix x
  have "fst (retry_attempts sleep func as u) \<noteq> Inl x" for as u
    by (induction as arbitrary: u) (auto split: prod.splits sum.splits exn.splits)
  then show "fst (api_retry_with_backoff sleep func w) \<noteq> Inl x"
    by (simp add: api_retry_with_backoff_def)
qed

theorem retry_failure_is_false_witness:
  "(\<lambda>t. (Inl (HTTPError 500), t @ [Attempt])) [] = (Inl (HTTPError 500), [Attempt])
   \<and> HTTPError 500 \<noteq> TimeoutError
   \<and> (\<forall>u. fst ((\<lambda>t. (Inl (HTTPError 500) :: exn + bool, t @ [Attempt])) u) \<noteq> Inr True)
   \<and> retry_attempts (\<lambda>d t. t @ [Slept d]) (\<lambda>t. (Inl (HTTPError 500), t @ [Attempt])) [2, 3] []
       = (Inr False, [Attempt])
   \<and> api_retry_with_backoff (\<lambda>d t. t @ [Slept d]) (\<lambda>t. (Inl (HTTPError 500), t @ [Attempt])) []
       = (Inr False, [Attempt])"
  using retry_failure_is_false [of "\<lambda>t. (Inl (HTTPError 500), t @ [Attempt])" "[]"
      "HTTPError 500" "[Attempt]" "\<lambda>d t. t @ [Slept d]" 2 "[3]"]
  by (simp add: api_retry_unfold)

section \<open>Properties of payload validation\<close>

lemma check_payload_fields_append:
  "check_payload_fields fromiso mt data items errs =
     errs @ concat (map (field_errors fromiso mt data) items)"
  by (induction items arbitrary: errs) simp_all

lemma missing_field_error:
  assumes "dict_get data f = JNull"
      and "(mt = ''sms'' \<and> f = ''body'') \<or> (mt = ''mms'' \<and> f = ''attachments'')"
      and "pf_field item = f"
  shows "field_errors fromiso mt data item = [''payload missing required field: '' @ f]"
  using assms by (auto simp: field_errors_def Let_def)

text \<open>
  Claim C10. \<open>SMS_PAYLOAD_FIELDS\<close> declares \<open>body\<close> and \<open>attachments\<close> with
  \<open>required\<close> false. All the same, for a payload whose type is sms (in any letter
  case) with no \<open>body\<close>, or whose type is mms with no \<open>attachments\<close>, and a field
  list that has the field, \<open>validate_payload\<close> aborts with status 400, and the error
  list names the field as a missing required field.
\<close>

theorem per_type_required_fields:
  assumes "dict_get data ''type'' = JStr t"
      and "(lower t = ''sms'' \<and> f = ''body'') \<or> (lower t = ''mms'' \<and> f = ''attachments'')"
      and "dict_get data f = JNull"
      and "f \<in> set (map pf_field payload_fields)"
  shows "validate_payload fromiso data payload_fields one_of_fields =
           Inl (HTTPException 400
                  (join ''; '' (check_payload_fields fromiso (lower t) data payload_fields [])))
         \<and> (''payload missing required field: '' @ f)
             \<in> set (check_payload_fields fromiso (lower t) data payload_fields [])
         \<and> map pf_required (filter (\<lambda>i. pf_field i = ''body'' \<or> pf_field i = ''attachments'')
                                 SMS_PAYLOAD_FIELDS) = [False, False]"
proof -
  from assms(4) obtain item where item: "item \<in> set payload_fields" "pf_field item = f"
    by auto
  have "field_errors fromiso (lower t) data item = [''payload missing required field: '' @ f]"
    using assms(3) assms(2) item(2) by (rule missing_field_error)
  then have "(''payload missing required field: '' @ f)
      \<in> set (field_errors fromiso (lower t) data item)"
    by (simp del: append.simps)
  with item(1) have mem: "(''payload missing required field: '' @ f)
      \<in> set (check_payload_fields fromiso (lower t) data payload_fields [])"
    unfolding check_payload_fields_append by (simp del: append.simps) blast
  then have ne: "check_payload_fields fromiso (lower t) data payload_fields [] \<noteq> []"
    by auto
  from assms(2) have mt: "lower t = ''sms'' \<or> lower t = ''mms''" by auto
  have "validate_payload fromiso data payload_fields one_of_fields =
           Inl (HTTPException 400
                  (join ''; '' (check_payload_fields fromiso (lower t) data payload_fields [])))"
    using assms(1) mt ne by (auto simp: validate_payload_def Let_def)
  moreover have "map pf_required (filter (\<lambda>i. pf_field i = ''body'' \<or> pf_field i = ''attachments'')
                                 SMS_PAYLOAD_FIELDS) = [False, False]"
    by (simp add: SMS_PAYLOAD_FIELDS_def)
  ultimately show ?thesis using mem by simp
qed

theorem per_type_required_fields_witness:
  "dict_get sms_no_body ''type'' = JStr ''sms'' \<and> lower ''sms'' = ''sms''
   \<and> dict_get sms_no_body ''body'' = JNull
   \<and> ''body'' \<in> set (map pf_field SMS_PAYLOAD_FIELDS)
   \<and> validate_payload (\<lambda>ts. True) sms_no_body SMS_PAYLOAD_FIELDS None
       = Inl (HTTPException 400 ''payload missing required field: body'')
   \<and> dict_get mms_no_attachments ''type'' = JStr ''MMS'' \<and> lower ''MMS'' = ''mms''
   \<and> dict_get mms_no_attachments ''attachments'' = JNull
   \<and> ''attachments'' \<in> set (map pf_field SMS_PAYLOAD_FIELDS)
   \<and> validate_payload (\<lambda>ts. True) mms_no_attachments SMS_PAYLOAD_FIELDS None
       = Inl (HTTPException 400 ''payload missing required field: attachments'')"
  using per_type_required_fields [of sms_no_body "''sms''" "''body''" SMS_PAYLOAD_FIELDS
      "\<lambda>ts. True" None]
    per_type_required_fields [of mms_no_attachments "''MMS''" "''attachments''" SMS_PAYLOAD_FIELDS
      "\<lambda>ts. True" None]
  by (simp add: sms_no_body_def mms_no_attachments_def SMS_PAYLOAD_FIELDS_def dict_get_def
      lower_def lower_char_def upper_letters_def lower_letters_def field_errors_def
      type_errors_def replace_Z_def)

section \<open>Properties of the identity store\<close>

lemmas example_defs = example_session_def example_db_def example_uuids_def
  shared_numbers_session_def shared_numbers_db_def orphan_session_def orphan_db_def

lemmas string_defs = lower_def lower_char_def upper_letters_def lower_letters_def strip_def
  isspace_def

lemma filter_fresh_key:
  "k \<notin> set (map f xs) \<Longrightarrow> filter (\<lambda>x. f x = k \<and> P x) xs = []"
  by (induction xs) auto

lemma select_contact_after_create:
  assumes "cc_id c \<notin> set (map ccm_customer_contact_id (customer_contact_comm_methods db))"
      and "cc_id c \<notin> set (map cc_id (customer_contacts db))"
      and "ccm_customer_contact_id m = cc_id c" and "cc_customer_id c = cid"
      and "ccm_type m = ct" and "ccm_value m = v"
  shows "select_contact_comm_methods
     (db\<lparr>customer_contacts := customer_contacts db @ [c],
         customer_contact_comm_methods := customer_contact_comm_methods db @ [m]\<rparr>) cid ct v
   = select_contact_comm_methods db cid ct v @ [(ccm_id m, cc_id c)]"
proof -
  let ?P = "\<lambda>cm cc. cc_id cc = ccm_customer_contact_id cm \<and> cc_customer_id cc = cid
                         \<and> ccm_type cm = ct \<and> ccm_value cm = v"
  let ?g = "\<lambda>cm cc. (ccm_id cm, ccm_customer_contact_id cm)"
  let ?cms = "customer_contact_comm_methods db"
  let ?ccs = "customer_contacts db"
  have old: "map (\<lambda>cm. map (?g cm) (filter (?P cm) (?ccs @ [c]))) ?cms
     = map (\<lambda>cm. map (?g cm) (filter (?P cm) ?ccs)) ?cms"
    using assms(1) by (intro map_cong) auto
  have "filter (?P m) ?ccs = []"
    using assms(2,3) filter_fresh_key [of "cc_id c" cc_id ?ccs] by simp
  moreover have "filter (?P m) [c] = [c]"
    using assms(3-6) by simp
  ultimately have new: "map (?g m) (filter (?P m) (?ccs @ [c])) = [(ccm_id m, cc_id c)]"
    using assms(3) by simp
  have "select_contact_comm_methods
     (db\<lparr>customer_contacts := ?ccs @ [c], customer_contact_comm_methods := ?cms @ [m]\<rparr>) cid ct v
     = concat (map (\<lambda>cm. map (?g cm) (filter (?P cm) (?ccs @ [c]))) ?cms)
       @ map (?g m) (filter (?P m) (?ccs @ [c]))"
    by (simp add: select_contact_comm_methods_def del: filter_append filter.simps)
  also have "\<dots> = concat (map (\<lambda>cm. map (?g cm) (filter (?P cm) ?ccs)) ?cms) @ [(ccm_id m, cc_id c)]"
    by (simp only: old new)
  finally show ?thesis
    by (simp add: select_contact_comm_methods_def)
qed

lemma create_contact_success:
  assumes valid: "ContactType ct = Inr ct"
      and fresh_contact: "uuid_source s 0 \<notin> set (map cc_id (customer_contacts (working s)))"
      and unreferenced: "uuid_source s 0
             \<notin> set (map ccm_customer_contact_id (customer_contact_comm_methods (working s)))"
      and fresh_comm: "uuid_source s 1
             \<notin> set (map ccm_id (customer_contact_comm_methods (working s)))"
  shows "contact_comm_method_from_rows [] cid ct v s =
     (Inr (uuid_source s 1, uuid_source s 0),
      s\<lparr>committed := (working s)
           \<lparr>customer_contacts := customer_contacts (working s) @
              [\<lparr>cc_id = uuid_source s 0, cc_customer_id = cid,
                cc_first_name = None, cc_last_name = None\<rparr>],
            customer_contact_comm_methods := customer_contact_comm_methods (working s) @
              [\<lparr>ccm_id = uuid_source s 1, ccm_customer_contact_id = uuid_source s 0,
                ccm_type = ct, ccm_value = v\<rparr>]\<rparr>,
         working := (working s)
           \<lparr>customer_contacts := customer_contacts (working s) @
              [\<lparr>cc_id = uuid_source s 0, cc_customer_id = cid,
                cc_first_name = None, cc_last_name = None\<rparr>],
            customer_contact_comm_methods := customer_contact_comm_methods (working s) @
              [\<lparr>ccm_id = uuid_source s 1, ccm_customer_contact_id = uuid_source s 0,
                ccm_type = ct, ccm_value = v\<rparr>]\<rparr>,
         uuid_source := (\<lambda>n. uuid_source s (Suc (Suc n)))\<rparr>)"
proof -
  have unique: "(uuid_source s 0, ct, v)
      \<notin> set (map (\<lambda>r. (ccm_customer_contact_id r, ccm_type r, ccm_value r))
                (customer_contact_comm_methods (working s)))"
    using unreferenced by auto
  show ?thesis
    using valid fresh_contact fresh_comm unique
    by (simp add: contact_comm_method_from_rows_def uuid4_def insert_customer_contact_def
        insert_customer_contact_comm_method_def commit_def Let_def)
qed

lemma from_rows_committed:
  assumes "working s = committed s"
  shows "committed (snd (contact_comm_method_from_rows rows cid ct v s)) = committed s
       \<or> committed (snd (contact_comm_method_from_rows rows cid ct v s)) =
          (committed s)
           \<lparr>customer_contacts := customer_contacts (committed s) @
              [\<lparr>cc_id = uuid_source s 0, cc_customer_id = cid,
                cc_first_name = None, cc_last_name = None\<rparr>],
            customer_contact_comm_methods := customer_contact_comm_methods (committed s) @
              [\<lparr>ccm_id = uuid_source s 1, ccm_customer_contact_id = uuid_source s 0,
                ccm_type = ct, ccm_value = v\<rparr>]\<rparr>"
  using assms
  by (auto simp: contact_comm_method_from_rows_def uuid4_def insert_customer_contact_def
        insert_customer_contact_comm_method_def commit_def Let_def ContactType_def
        split: sum.splits if_splits)

lemma select_contact_row:
  assumes "r \<in> set (select_contact_comm_methods db cid ct v)"
  shows "\<exists>cm \<in> set (customer_contact_comm_methods db). \<exists>cc \<in> set (customer_contacts db).
           r = (ccm_id cm, cc_id cc) \<and> ccm_customer_contact_id cm = cc_id cc
           \<and> cc_customer_id cc = cid \<and> ccm_type cm = ct \<and> ccm_value cm = v"
proof -
  from assms obtain cm cc where
    "cm \<in> set (customer_contact_comm_methods db)" "cc \<in> set (customer_contacts db)"
    "r = (ccm_id cm, ccm_customer_contact_id cm)" "cc_id cc = ccm_customer_contact_id cm"
    "cc_customer_id cc = cid" "ccm_type cm = ct" "ccm_value cm = v"
    by (auto simp: select_contact_comm_methods_def)
  then show ?thesis
    by (intro bexI [of _ cm] bexI [of _ cc]) simp_all
qed

lemma sequential_calls_fixed:
  "f s = (r, s) \<Longrightarrow> sequential_calls n f s = (replicate n r, s)"
  by (induction n) simp_all

lemma found_contact:
  "select_contact_comm_methods (working s) cid (lower (strip t)) (strip v) = [r]
     \<Longrightarrow> get_customer_contact_comm_method_id cid t v s = (Inr r, s)"
  by (simp add: get_customer_contact_comm_method_id_def contact_comm_method_from_rows_def)

text \<open>
  Claim C4. \<open>get_customer_comm_method_id\<close> leaves the session as it found it, so it
  creates no row. With the type trimmed and lower-cased and the value trimmed: when
  exactly one row of \<open>customer_comm_methods\<close> has that type and value, it returns that
  row's (id, customer_id); when none has, it raises the "not found" \<open>ValueError\<close>; when
  more than one has, it raises the "multiple ... found" \<open>ValueError\<close>.
\<close>

theorem customer_comm_method_resolution:
  "snd (get_customer_comm_method_id t v s) = s
   \<and> (filter (\<lambda>r. cm_type r = lower (strip t) \<and> cm_value r = strip v)
         (customer_comm_methods (working s)) = [row]
       \<longrightarrow> fst (get_customer_comm_method_id t v s) = Inr (cm_id row, cm_customer_id row))
   \<and> (filter (\<lambda>r. cm_type r = lower (strip t) \<and> cm_value r = strip v)
         (customer_comm_methods (working s)) = []
       \<longrightarrow> fst (get_customer_comm_method_id t v s)
            = Inl (ValueError (''customer communication method not found for value: '' @ strip v)))
   \<and> (length (filter (\<lambda>r. cm_type r = lower (strip t) \<and> cm_value r = strip v)
         (customer_comm_methods (working s))) > 1
       \<longrightarrow> fst (get_customer_comm_method_id t v s)
            = Inl (ValueError
                (''multiple customer communication methods found for the same value: ''
                 @ strip v)))"
  by (auto simp: get_customer_comm_method_id_def select_customer_comm_methods_def Let_def
      simp del: append.simps)

theorem customer_comm_method_resolution_witness:
  "filter (\<lambda>r. cm_type r = lower (strip '' Phone '') \<and> cm_value r = strip '' +12155550000'')
      (customer_comm_methods (working example_session))
     = [\<lparr>cm_id = ''m1'', cm_customer_id = ''c1'', cm_type = ''phone'',
         cm_value = ''+12155550000'', cm_label = Some ''main phone number''\<rparr>]
   \<and> get_customer_comm_method_id '' Phone '' '' +12155550000'' example_session
       = (Inr (''m1'', ''c1''), example_session)
   \<and> filter (\<lambda>r. cm_type r = lower (strip ''phone'') \<and> cm_value r = strip ''+10000000000'')
      (customer_comm_methods (working example_session)) = []
   \<and> get_customer_comm_method_id ''phone'' ''+10000000000'' example_session
       = (Inl (ValueError ''customer communication method not found for value: +10000000000''),
          example_session)
   \<and> length (filter (\<lambda>r. cm_type r = lower (strip ''phone'') \<and> cm_value r = strip ''+12155550000'')
      (customer_comm_methods (working shared_numbers_session))) > 1
   \<and> get_customer_comm_method_id ''phone'' ''+12155550000'' shared_numbers_session
       = (Inl (ValueError
            ''multiple customer communication methods found for the same value: +12155550000''),
          shared_numbers_session)"
proof -
  let ?m1 = "\<lparr>cm_id = ''m1'', cm_customer_id = ''c1'', cm_type = ''phone'',
              cm_value = ''+12155550000'', cm_label = Some ''main phone number''\<rparr>"
  have h1: "filter (\<lambda>r. cm_type r = lower (strip '' Phone '') \<and> cm_value r = strip '' +12155550000'')
      (customer_comm_methods (working example_session)) = [?m1]"
    by (simp add: example_defs string_defs)
  have h2: "filter (\<lambda>r. cm_type r = lower (strip ''phone'') \<and> cm_value r = strip ''+10000000000'')
      (customer_comm_methods (working example_session)) = []"
    by (simp add: example_defs string_defs)
  have h3: "length (filter (\<lambda>r. cm_type r = lower (strip ''phone'')
                              \<and> cm_value r = strip ''+12155550000'')
      (customer_comm_methods (working shared_numbers_session))) > 1"
    by (simp add: example_defs string_defs)
  note t1 = customer_comm_method_resolution
    [of "'' Phone ''" "'' +12155550000''" example_session ?m1]
  note t2 = customer_comm_method_resolution [of "''phone''" "''+10000000000''" example_session]
  note t3 = customer_comm_method_resolution [of "''phone''" "''+12155550000''" shared_numbers_session]
  have c1: "get_customer_comm_method_id '' Phone '' '' +12155550000'' example_session
       = (Inr (cm_id ?m1, cm_customer_id ?m1), example_session)"
  proof -
    from t1 h1 have "fst (get_customer_comm_method_id '' Phone '' '' +12155550000'' example_session)
        = Inr (cm_id ?m1, cm_customer_id ?m1)" by blast
    moreover from t1
    have "snd (get_customer_comm_method_id '' Phone '' '' +12155550000'' example_session)
        = example_session" by blast
    ultimately show ?thesis by (simp only: prod_eq_iff fst_conv snd_conv simp_thms)
  qed
  have c2: "get_customer_comm_method_id ''phone'' ''+10000000000'' example_session
       = (Inl (ValueError (''customer communication method not found for value: ''
                           @ strip ''+10000000000'')), example_session)"
  proof -
    from t2 h2 have "fst (get_customer_comm_method_id ''phone'' ''+10000000000'' example_session)
        = Inl (ValueError (''customer communication method not found for value: ''
                           @ strip ''+10000000000''))" by blast
    moreover from t2
    have "snd (get_customer_comm_method_id ''phone'' ''+10000000000'' example_session)
        = example_session" by blast
    ultimately show ?thesis by (simp only: prod_eq_iff fst_conv snd_conv simp_thms)
  qed
  have c3: "get_customer_comm_method_id ''phone'' ''+12155550000'' shared_numbers_session
       = (Inl (ValueError
            (''multiple customer communication methods found for the same value: ''
             @ strip ''+12155550000'')), shared_numbers_session)"
  proof -
    from t3 h3
    have "fst (get_customer_comm_method_id ''phone'' ''+12155550000'' shared_numbers_session)
        = Inl (ValueError
            (''multiple customer communication methods found for the same value: ''
             @ strip ''+12155550000''))" by blast
    moreover from t3
    have "snd (get_customer_comm_method_id ''phone'' ''+12155550000'' shared_numbers_session)
        = shared_numbers_session" by blast
    ultimately show ?thesis by (simp only: prod_eq_iff fst_conv snd_conv simp_thms)
  qed
  have s2: "strip ''+10000000000'' = ''+10000000000''" by (simp add: string_defs)
  have s3: "strip ''+12155550000'' = ''+12155550000''" by (simp add: string_defs)
  from c1 have c1': "get_customer_comm_method_id '' Phone '' '' +12155550000'' example_session
       = (Inr (''m1'', ''c1''), example_session)"
    by simp
  from c2 have c2': "get_customer_comm_method_id ''phone'' ''+10000000000'' example_session
       = (Inl (ValueError ''customer communication method not found for value: +10000000000''),
          example_session)"
    by (simp add: s2)
  from c3 have c3': "get_customer_comm_method_id ''phone'' ''+12155550000'' shared_numbers_session
       = (Inl (ValueError
            ''multiple customer communication methods found for the same value: +12155550000''),
          shared_numbers_session)"
    by (simp add: s3)
  from h1 c1' h2 c2' h3 c3' show ?thesis by blast
qed

text \<open>
  The three cases of \<open>get_customer_contact_comm_method_id\<close> and what it commits,
  in terms of the rows its query returns.
\<close>

lemma find_or_create_contact_rows:
  assumes clean: "working s = committed s"
  shows
  "(select_contact_comm_methods (working s) customer_id (lower (strip t)) (strip v) = [r]
      \<longrightarrow> get_customer_contact_comm_method_id customer_id t v s = (Inr r, s)
          \<and> (\<exists>cm \<in> set (customer_contact_comm_methods (working s)).
              \<exists>cc \<in> set (customer_contacts (working s)).
                r = (ccm_id cm, cc_id cc) \<and> ccm_customer_contact_id cm = cc_id cc
                \<and> cc_customer_id cc = customer_id
                \<and> ccm_type cm = lower (strip t) \<and> ccm_value cm = strip v))
   \<and> (length (select_contact_comm_methods (working s) customer_id (lower (strip t)) (strip v)) > 1
      \<longrightarrow> get_customer_contact_comm_method_id customer_id t v s
            = (Inl (ValueError
                 (''multiple customer contacts communication methods found for the same value: ''
                  @ strip v)), s))
   \<and> (select_contact_comm_methods (working s) customer_id (lower (strip t)) (strip v) = []
       \<and> ContactType (lower (strip t)) = Inr (lower (strip t))
       \<and> uuid_source s 0 \<notin> set (map cc_id (customer_contacts (working s)))
       \<and> uuid_source s 0
            \<notin> set (map ccm_customer_contact_id (customer_contact_comm_methods (working s)))
       \<and> uuid_source s 1 \<notin> set (map ccm_id (customer_contact_comm_methods (working s)))
      \<longrightarrow> fst (get_customer_contact_comm_method_id customer_id t v s)
            = Inr (uuid_source s 1, uuid_source s 0)
          \<and> committed (snd (get_customer_contact_comm_method_id customer_id t v s)) =
             (committed s)
               \<lparr>customer_contacts := customer_contacts (committed s) @
                  [\<lparr>cc_id = uuid_source s 0, cc_customer_id = customer_id,
                    cc_first_name = None, cc_last_name = None\<rparr>],
                customer_contact_comm_methods := customer_contact_comm_methods (committed s) @
                  [\<lparr>ccm_id = uuid_source s 1, ccm_customer_contact_id = uuid_source s 0,
                    ccm_type = lower (strip t), ccm_value = strip v\<rparr>]\<rparr>)
   \<and> (committed (snd (get_customer_contact_comm_method_id customer_id t v s)) = committed s
      \<or> committed (snd (get_customer_contact_comm_method_id customer_id t v s)) =
           (committed s)
             \<lparr>customer_contacts := customer_contacts (committed s) @
                [\<lparr>cc_id = uuid_source s 0, cc_customer_id = customer_id,
                  cc_first_name = None, cc_last_name = None\<rparr>],
              customer_contact_comm_methods := customer_contact_comm_methods (committed s) @
                [\<lparr>ccm_id = uuid_source s 1, ccm_customer_contact_id = uuid_source s 0,
                  ccm_type = lower (strip t), ccm_value = strip v\<rparr>]\<rparr>)"
proof (intro conjI impI)
  assume one: "select_contact_comm_methods (working s) customer_id (lower (strip t)) (strip v) = [r]"
  then show "get_customer_contact_comm_method_id customer_id t v s = (Inr r, s)"
    by (simp add: get_customer_contact_comm_method_id_def contact_comm_method_from_rows_def)
  from one have "r \<in> set (select_contact_comm_methods (working s) customer_id
                             (lower (strip t)) (strip v))"
    by simp
  then show "\<exists>cm \<in> set (customer_contact_comm_methods (working s)).
              \<exists>cc \<in> set (customer_contacts (working s)).
                r = (ccm_id cm, cc_id cc) \<and> ccm_customer_contact_id cm = cc_id cc
                \<and> cc_customer_id cc = customer_id
                \<and> ccm_type cm = lower (strip t) \<and> ccm_value cm = strip v"
    by (rule select_contact_row)
next
  assume "length (select_contact_comm_methods (working s) customer_id
                    (lower (strip t)) (strip v)) > 1"
  then show "get_customer_contact_comm_method_id customer_id t v s
            = (Inl (ValueError
                 (''multiple customer contacts communication methods found for the same value: ''
                  @ strip v)), s)"
    by (simp add: get_customer_contact_comm_method_id_def contact_comm_method_from_rows_def
        del: append.simps)
next
  assume h: "select_contact_comm_methods (working s) customer_id (lower (strip t)) (strip v) = []
       \<and> ContactType (lower (strip t)) = Inr (lower (strip t))
       \<and> uuid_source s 0 \<notin> set (map cc_id (customer_contacts (working s)))
       \<and> uuid_source s 0
            \<notin> set (map ccm_customer_contact_id (customer_contact_comm_methods (working s)))
       \<and> uuid_source s 1 \<notin> set (map ccm_id (customer_contact_comm_methods (working s)))"
  then have created: "get_customer_contact_comm_method_id customer_id t v s =
      contact_comm_method_from_rows [] customer_id (lower (strip t)) (strip v) s"
    by (simp add: get_customer_contact_comm_method_id_def)
  from h show "fst (get_customer_contact_comm_method_id customer_id t v s)
            = Inr (uuid_source s 1, uuid_source s 0)"
    unfolding created by (subst create_contact_success) simp_all
  from h show "committed (snd (get_customer_contact_comm_method_id customer_id t v s)) =
             (committed s)
               \<lparr>customer_contacts := customer_contacts (committed s) @
                  [\<lparr>cc_id = uuid_source s 0, cc_customer_id = customer_id,
                    cc_first_name = None, cc_last_name = None\<rparr>],
                customer_contact_comm_methods := customer_contact_comm_methods (committed s) @
                  [\<lparr>ccm_id = uuid_source s 1, ccm_customer_contact_id = uuid_source s 0,
                    ccm_type = lower (strip t), ccm_value = strip v\<rparr>]\<rparr>"
    unfolding created by (subst create_contact_success) (simp_all add: clean)
next
  show "committed (snd (get_customer_contact_comm_method_id customer_id t v s)) = committed s
      \<or> committed (snd (get_customer_contact_comm_method_id customer_id t v s)) =
           (committed s)
             \<lparr>customer_contacts := customer_contacts (committed s) @
                [\<lparr>cc_id = uuid_source s 0, cc_customer_id = customer_id,
                  cc_first_name = None, cc_last_name = None\<rparr>],
              customer_contact_comm_methods := customer_contact_comm_methods (committed s) @
                [\<lparr>ccm_id = uuid_source s 1, ccm_customer_contact_id = uuid_source s 0,
                  ccm_type = lower (strip t), ccm_value = strip v\<rparr>]\<rparr>"
    unfolding get_customer_contact_comm_method_id_def Let_def
    using clean by (rule from_rows_committed)
qed

text \<open>
  The query, written out over the two tables: the inner join of the comm methods with
  the contacts on the contact id, restricted to the customer, the type and the value.
\<close>

lemma map_filter_comprehension:
  "map g (filter P xs) = concat (map (\<lambda>x. if P x then [g x] else []) xs)"
  by (induction xs) simp_all

lemma select_contact_comm_methods_join:
  "select_contact_comm_methods db cid ct v =
     [(ccm_id cm, ccm_customer_contact_id cm).
        cm \<leftarrow> customer_contact_comm_methods db, cc \<leftarrow> customer_contacts db,
        cc_id cc = ccm_customer_contact_id cm \<and> cc_customer_id cc = cid
        \<and> ccm_type cm = ct \<and> ccm_value cm = v]"
  unfolding select_contact_comm_methods_def
  by (simp only: map_filter_comprehension)

text \<open>
  Claim C5. \<open>get_customer_contact_comm_method_id\<close>, called in a session with nothing
  uncommitted. The matching rows are those of the inner join of
  \<open>customer_contact_comm_methods\<close> with \<open>customer_contacts\<close> on the contact id,
  for contacts of the given customer and comm methods with the type (trimmed and
  lower-cased) and the value (trimmed):
  \<^item> when exactly one row matches, the call returns that row's
    (id, customer_contact_id) and leaves the session as it was;
  \<^item> when more than one row matches, it raises the "multiple ... found"
    \<open>ValueError\<close>, the session unchanged;
  \<^item> when none matches, the type is a \<open>ContactType\<close> and the two fresh uuids are
    unused, it returns the new ids, and the database holds one more contact, with no
    first or last name, and one more comm method, which references that contact;
  \<^item> whatever happens, the committed database afterwards is either the one before or
    the one before with both new rows: never the contact alone.
\<close>

theorem find_or_create_contact:
  assumes clean: "working s = committed s"
  shows
  "([(ccm_id cm, ccm_customer_contact_id cm).
         cm \<leftarrow> customer_contact_comm_methods (working s),
         cc \<leftarrow> customer_contacts (working s),
         cc_id cc = ccm_customer_contact_id cm \<and> cc_customer_id cc = customer_id
         \<and> ccm_type cm = lower (strip t) \<and> ccm_value cm = strip v] = [r]
      \<longrightarrow> get_customer_contact_comm_method_id customer_id t v s = (Inr r, s)
          \<and> (\<exists>cm \<in> set (customer_contact_comm_methods (working s)).
              \<exists>cc \<in> set (customer_contacts (working s)).
                r = (ccm_id cm, cc_id cc) \<and> ccm_customer_contact_id cm = cc_id cc
                \<and> cc_customer_id cc = customer_id
                \<and> ccm_type cm = lower (strip t) \<and> ccm_value cm = strip v))
   \<and> (length ([(ccm_id cm, ccm_customer_contact_id cm).
         cm \<leftarrow> customer_contact_comm_methods (working s),
         cc \<leftarrow> customer_contacts (working s),
         cc_id cc = ccm_customer_contact_id cm \<and> cc_customer_id cc = customer_id
         \<and> ccm_type cm = lower (strip t) \<and> ccm_value cm = strip v]) > 1
      \<longrightarrow> get_customer_contact_comm_method_id customer_id t v s
            = (Inl (ValueError
                 (''multiple customer contacts communication methods found for the same value: ''
                  @ strip v)), s))
   \<and> ([(ccm_id cm, ccm_customer_contact_id cm).
         cm \<leftarrow> customer_contact_comm_methods (working s),
         cc \<leftarrow> customer_contacts (working s),
         cc_id cc = ccm_customer_contact_id cm \<and> cc_customer_id cc = customer_id
         \<and> ccm_type cm = lower (strip t) \<and> ccm_value cm = strip v] = []
       \<and> ContactType (lower (strip t)) = Inr (lower (strip t))
       \<and> uuid_source s 0 \<notin> set (map cc_id (customer_contacts (working s)))
       \<and> uuid_source s 0
            \<notin> set (map ccm_customer_contact_id (customer_contact_comm_methods (working s)))
       \<and> uuid_source s 1 \<notin> set (map ccm_id (customer_contact_comm_methods (working s)))
      \<longrightarrow> fst (get_customer_contact_comm_method_id customer_id t v s)
            = Inr (uuid_source s 1, uuid_source s 0)
          \<and> committed (snd (get_customer_contact_comm_method_id customer_id t v s)) =
             (committed s)
               \<lparr>customer_contacts := customer_contacts (committed s) @
                  [\<lparr>cc_id = uuid_source s 0, cc_customer_id = customer_id,
                    cc_first_name = None, cc_last_name = None\<rparr>],
                customer_contact_comm_methods := customer_contact_comm_methods (committed s) @
                  [\<lparr>ccm_id = uuid_source s 1, ccm_customer_contact_id = uuid_source s 0,
                    ccm_type = lower (strip t), ccm_value = strip v\<rparr>]\<rparr>)
   \<and> (committed (snd (get_customer_contact_comm_method_id customer_id t v s)) = committed s
      \<or> committed (snd (get_customer_contact_comm_method_id customer_id t v s)) =
           (committed s)
             \<lparr>customer_contacts := customer_contacts (committed s) @
                [\<lparr>cc_id = uuid_source s 0, cc_customer_id = customer_id,
                  cc_first_name = None, cc_last_name = None\<rparr>],
              customer_contact_comm_methods := customer_contact_comm_methods (committed s) @
                [\<lparr>ccm_id = uuid_source s 1, ccm_customer_contact_id = uuid_source s 0,
                  ccm_type = lower (strip t), ccm_value = strip v\<rparr>]\<rparr>)"
  using find_or_create_contact_rows [OF clean, of customer_id t v r]
  unfolding select_contact_comm_methods_join .

theorem find_or_create_contact_witness:
  "working example_session = committed example_session
   \<and> [(ccm_id cm, ccm_customer_contact_id cm).
         cm \<leftarrow> customer_contact_comm_methods (working example_session),
         cc \<leftarrow> customer_contacts (working example_session),
         cc_id cc = ccm_customer_contact_id cm \<and> cc_customer_id cc = ''c1''
         \<and> ccm_type cm = lower (strip '' Phone'') \<and> ccm_value cm = strip ''+15551230001 ''] = [(''n1'', ''k1'')]
   \<and> get_customer_contact_comm_method_id ''c1'' '' Phone'' ''+15551230001 '' example_session
       = (Inr (''n1'', ''k1''), example_session)
   \<and> ([(ccm_id cm, ccm_customer_contact_id cm).
         cm \<leftarrow> customer_contact_comm_methods (working example_session),
         cc \<leftarrow> customer_contacts (working example_session),
         cc_id cc = ccm_customer_contact_id cm \<and> cc_customer_id cc = ''c1''
         \<and> ccm_type cm = lower (strip ''phone'') \<and> ccm_value cm = strip ''+15559990000''] = []
     \<and> ContactType (lower (strip ''phone'')) = Inr (lower (strip ''phone''))
     \<and> uuid_source example_session 0
          \<notin> set (map cc_id (customer_contacts (working example_session)))
     \<and> uuid_source example_session 0
          \<notin> set (map ccm_customer_contact_id
                    (customer_contact_comm_methods (working example_session)))
     \<and> uuid_source example_session 1
          \<notin> set (map ccm_id (customer_contact_comm_methods (working example_session))))
   \<and> fst (get_customer_contact_comm_method_id ''c1'' ''phone'' ''+15559990000'' example_session)
       = Inr (''uu'', ''u'')
   \<and> committed (snd (get_customer_contact_comm_method_id ''c1'' ''phone'' ''+15559990000''
                        example_session))
       = example_db
           \<lparr>customer_contacts := customer_contacts example_db @
              [\<lparr>cc_id = ''u'', cc_customer_id = ''c1'',
                cc_first_name = None, cc_last_name = None\<rparr>],
            customer_contact_comm_methods := customer_contact_comm_methods example_db @
              [\<lparr>ccm_id = ''uu'', ccm_customer_contact_id = ''u'',
                ccm_type = ''phone'', ccm_value = ''+15559990000''\<rparr>]\<rparr>
   \<and> working shared_numbers_session = committed shared_numbers_session
   \<and> length ([(ccm_id cm, ccm_customer_contact_id cm).
         cm \<leftarrow> customer_contact_comm_methods (working shared_numbers_session),
         cc \<leftarrow> customer_contacts (working shared_numbers_session),
         cc_id cc = ccm_customer_contact_id cm \<and> cc_customer_id cc = ''c1''
         \<and> ccm_type cm = lower (strip ''phone'') \<and> ccm_value cm = strip ''+15551230001'']) > 1
   \<and> get_customer_contact_comm_method_id ''c1'' ''phone'' ''+15551230001'' shared_numbers_session
       = (Inl (ValueError
            ''multiple customer contacts communication methods found for the same value: +15551230001''),
          shared_numbers_session)"
proof -
  have a: "working example_session = committed example_session"
    by (simp add: example_session_def)
  have b: "working shared_numbers_session = committed shared_numbers_session"
    by (simp add: shared_numbers_session_def)
  have h1: "[(ccm_id cm, ccm_customer_contact_id cm).
         cm \<leftarrow> customer_contact_comm_methods (working example_session),
         cc \<leftarrow> customer_contacts (working example_session),
         cc_id cc = ccm_customer_contact_id cm \<and> cc_customer_id cc = ''c1''
         \<and> ccm_type cm = lower (strip '' Phone'') \<and> ccm_value cm = strip ''+15551230001 ''] = [(''n1'', ''k1'')]"
    by (simp add: example_defs string_defs)
  have h2: "[(ccm_id cm, ccm_customer_contact_id cm).
         cm \<leftarrow> customer_contact_comm_methods (working example_session),
         cc \<leftarrow> customer_contacts (working example_session),
         cc_id cc = ccm_customer_contact_id cm \<and> cc_customer_id cc = ''c1''
         \<and> ccm_type cm = lower (strip ''phone'') \<and> ccm_value cm = strip ''+15559990000''] = []
     \<and> ContactType (lower (strip ''phone'')) = Inr (lower (strip ''phone''))
     \<and> uuid_source example_session 0
          \<notin> set (map cc_id (customer_contacts (working example_session)))
     \<and> uuid_source example_session 0
          \<notin> set (map ccm_customer_contact_id
                    (customer_contact_comm_methods (working example_session)))
     \<and> uuid_source example_session 1
          \<notin> set (map ccm_id (customer_contact_comm_methods (working example_session)))"
    by (simp add: example_defs string_defs ContactType_def)
  have h3: "length ([(ccm_id cm, ccm_customer_contact_id cm).
         cm \<leftarrow> customer_contact_comm_methods (working shared_numbers_session),
         cc \<leftarrow> customer_contacts (working shared_numbers_session),
         cc_id cc = ccm_customer_contact_id cm \<and> cc_customer_id cc = ''c1''
         \<and> ccm_type cm = lower (strip ''phone'') \<and> ccm_value cm = strip ''+15551230001'']) > 1"
    by (simp add: example_defs string_defs)
  note t1 = find_or_create_contact
    [OF a, where customer_id = "''c1''" and t = "'' Phone''" and v = "''+15551230001 ''"
       and r = "(''n1'', ''k1'')"]
  note t2 = find_or_create_contact
    [OF a, where customer_id = "''c1''" and t = "''phone''" and v = "''+15559990000''"]
  note t3 = find_or_create_contact
    [OF b, where customer_id = "''c1''" and t = "''phone''" and v = "''+15551230001''"]
  have c1: "get_customer_contact_comm_method_id ''c1'' '' Phone'' ''+15551230001 '' example_session
       = (Inr (''n1'', ''k1''), example_session)"
    using t1 h1 by blast
  have c2: "fst (get_customer_contact_comm_method_id ''c1'' ''phone'' ''+15559990000''
                   example_session)
       = Inr (uuid_source example_session 1, uuid_source example_session 0)"
    using t2 h2 by blast
  have c2s: "committed (snd (get_customer_contact_comm_method_id ''c1'' ''phone'' ''+15559990000''
                        example_session))
       = (committed example_session)
           \<lparr>customer_contacts := customer_contacts (committed example_session) @
              [\<lparr>cc_id = uuid_source example_session 0, cc_customer_id = ''c1'',
                cc_first_name = None, cc_last_name = None\<rparr>],
            customer_contact_comm_methods :=
              customer_contact_comm_methods (committed example_session) @
              [\<lparr>ccm_id = uuid_source example_session 1,
                ccm_customer_contact_id = uuid_source example_session 0,
                ccm_type = lower (strip ''phone''), ccm_value = strip ''+15559990000''\<rparr>]\<rparr>"
    using t2 h2 by blast
  have c3: "get_customer_contact_comm_method_id ''c1'' ''phone'' ''+15551230001''
              shared_numbers_session
       = (Inl (ValueError
            (''multiple customer contacts communication methods found for the same value: ''
             @ strip ''+15551230001'')), shared_numbers_session)"
    using t3 h3 by blast
  have ev: "uuid_source example_session 0 = ''u''" "uuid_source example_session 1 = ''uu''"
    "committed example_session = example_db"
    "lower (strip ''phone'') = ''phone''" "strip ''+15559990000'' = ''+15559990000''"
    "strip ''+15551230001'' = ''+15551230001''"
    by (simp_all add: example_session_def example_uuids_def string_defs)
  from c2 have c2': "fst (get_customer_contact_comm_method_id ''c1'' ''phone'' ''+15559990000''
                   example_session) = Inr (''uu'', ''u'')"
    by (simp only: ev)
  from c2s have c2s': "committed (snd (get_customer_contact_comm_method_id ''c1'' ''phone''
                        ''+15559990000'' example_session))
       = example_db
           \<lparr>customer_contacts := customer_contacts example_db @
              [\<lparr>cc_id = ''u'', cc_customer_id = ''c1'',
                cc_first_name = None, cc_last_name = None\<rparr>],
            customer_contact_comm_methods := customer_contact_comm_methods example_db @
              [\<lparr>ccm_id = ''uu'', ccm_customer_contact_id = ''u'',
                ccm_type = ''phone'', ccm_value = ''+15559990000''\<rparr>]\<rparr>"
    by (simp only: ev)
  from c3 have c3': "get_customer_contact_comm_method_id ''c1'' ''phone'' ''+15551230001''
              shared_numbers_session
       = (Inl (ValueError
            ''multiple customer contacts communication methods found for the same value: +15551230001''),
          shared_numbers_session)"
    by (simp add: ev)
  from a h1 c1 h2 c2' c2s' b h3 c3' show ?thesis by blast
qed

text \<open>
  Claim C2, as the code has it. The function has no handler for a rejected INSERT and
  the unique constraint on (customer_contact_id, type, value) cannot tell two new
  contacts apart, each having its own fresh id. What holds is the sequential case: in a
  session with nothing uncommitted and no matching row, any number of calls one after
  another (with a valid type and unused uuids) all return the ids the first one
  created, and the database gains exactly one contact and one comm method. And when
  an INSERT is rejected, of the contact for its id or of the comm method for
  \<open>uq_contact_comm_type_value\<close>, the \<open>IntegrityError\<close> is raised to the caller;
  in the second case nothing is committed.
\<close>

theorem sequential_contact_calls:
  assumes clean: "working s = committed s"
      and none: "select_contact_comm_methods (working s) cid (lower (strip t)) (strip v) = []"
  shows
  "(ContactType (lower (strip t)) = Inr (lower (strip t))
     \<and> uuid_source s 0 \<notin> set (map cc_id (customer_contacts (working s)))
     \<and> uuid_source s 0
          \<notin> set (map ccm_customer_contact_id (customer_contact_comm_methods (working s)))
     \<and> uuid_source s 1 \<notin> set (map ccm_id (customer_contact_comm_methods (working s)))
    \<longrightarrow> fst (sequential_calls (Suc n) (get_customer_contact_comm_method_id cid t v) s)
          = replicate (Suc n) (Inr (uuid_source s 1, uuid_source s 0))
        \<and> committed (snd (sequential_calls (Suc n) (get_customer_contact_comm_method_id cid t v) s))
          = (committed s)
              \<lparr>customer_contacts := customer_contacts (committed s) @
                 [\<lparr>cc_id = uuid_source s 0, cc_customer_id = cid,
                   cc_first_name = None, cc_last_name = None\<rparr>],
               customer_contact_comm_methods := customer_contact_comm_methods (committed s) @
                 [\<lparr>ccm_id = uuid_source s 1, ccm_customer_contact_id = uuid_source s 0,
                   ccm_type = lower (strip t), ccm_value = strip v\<rparr>]\<rparr>)
   \<and> (uuid_source s 0 \<in> set (map cc_id (customer_contacts (working s)))
    \<longrightarrow> get_customer_contact_comm_method_id cid t v s
          = (Inl (IntegrityError ''UNIQUE constraint failed: customer_contacts.id''),
             s\<lparr>uuid_source := (\<lambda>n. uuid_source s (Suc n))\<rparr>))
   \<and> (ContactType (lower (strip t)) = Inr (lower (strip t))
      \<and> uuid_source s 0 \<notin> set (map cc_id (customer_contacts (working s)))
      \<and> uuid_source s 1 \<notin> set (map ccm_id (customer_contact_comm_methods (working s)))
      \<and> (uuid_source s 0, lower (strip t), strip v)
           \<in> set (map (\<lambda>r. (ccm_customer_contact_id r, ccm_type r, ccm_value r))
                    (customer_contact_comm_methods (working s)))
    \<longrightarrow> fst (get_customer_contact_comm_method_id cid t v s)
          = Inl (IntegrityError uq_contact_comm_type_value_failed)
        \<and> committed (snd (get_customer_contact_comm_method_id cid t v s)) = committed s)"
proof (intro conjI impI)
  assume h: "ContactType (lower (strip t)) = Inr (lower (strip t))
     \<and> uuid_source s 0 \<notin> set (map cc_id (customer_contacts (working s)))
     \<and> uuid_source s 0
          \<notin> set (map ccm_customer_contact_id (customer_contact_comm_methods (working s)))
     \<and> uuid_source s 1 \<notin> set (map ccm_id (customer_contact_comm_methods (working s)))"
  let ?c = "\<lparr>cc_id = uuid_source s 0, cc_customer_id = cid,
             cc_first_name = None, cc_last_name = None\<rparr>"
  let ?m = "\<lparr>ccm_id = uuid_source s 1, ccm_customer_contact_id = uuid_source s 0,
             ccm_type = lower (strip t), ccm_value = strip v\<rparr>"
  let ?db = "(working s)\<lparr>customer_contacts := customer_contacts (working s) @ [?c],
               customer_contact_comm_methods := customer_contact_comm_methods (working s) @ [?m]\<rparr>"
  let ?s' = "s\<lparr>committed := ?db, working := ?db,
               uuid_source := (\<lambda>n. uuid_source s (Suc (Suc n)))\<rparr>"
  let ?r = "Inr (uuid_source s 1, uuid_source s 0) :: exn + string \<times> string"
  have first: "get_customer_contact_comm_method_id cid t v s = (?r, ?s')"
    using h none
    by (simp add: get_customer_contact_comm_method_id_def create_contact_success Let_def)
  have "select_contact_comm_methods ?db cid (lower (strip t)) (strip v)
          = select_contact_comm_methods (working s) cid (lower (strip t)) (strip v)
            @ [(ccm_id ?m, cc_id ?c)]"
    using h by (intro select_contact_after_create) simp_all
  then have "select_contact_comm_methods (working ?s') cid (lower (strip t)) (strip v)
          = [(uuid_source s 1, uuid_source s 0)]"
    using none by simp
  then have later: "get_customer_contact_comm_method_id cid t v ?s' = (?r, ?s')"
    by (rule found_contact)
  have all: "sequential_calls (Suc n) (get_customer_contact_comm_method_id cid t v) s
               = (replicate (Suc n) ?r, ?s')"
    using first
      sequential_calls_fixed [of "get_customer_contact_comm_method_id cid t v" ?s' ?r n, OF later]
    by simp
  show "fst (sequential_calls (Suc n) (get_customer_contact_comm_method_id cid t v) s)
          = replicate (Suc n) ?r"
    by (simp only: all fst_conv)
  show "committed (snd (sequential_calls (Suc n) (get_customer_contact_comm_method_id cid t v) s))
          = (committed s)
              \<lparr>customer_contacts := customer_contacts (committed s) @ [?c],
               customer_contact_comm_methods := customer_contact_comm_methods (committed s) @ [?m]\<rparr>"
    by (simp only: all snd_conv) (simp add: clean)
next
  assume "uuid_source s 0 \<in> set (map cc_id (customer_contacts (working s)))"
  then show "get_customer_contact_comm_method_id cid t v s
          = (Inl (IntegrityError ''UNIQUE constraint failed: customer_contacts.id''),
             s\<lparr>uuid_source := (\<lambda>n. uuid_source s (Suc n))\<rparr>)"
    using none
    by (simp add: get_customer_contact_comm_method_id_def contact_comm_method_from_rows_def
        uuid4_def insert_customer_contact_def)
next
  assume h: "ContactType (lower (strip t)) = Inr (lower (strip t))
      \<and> uuid_source s 0 \<notin> set (map cc_id (customer_contacts (working s)))
      \<and> uuid_source s 1 \<notin> set (map ccm_id (customer_contact_comm_methods (working s)))
      \<and> (uuid_source s 0, lower (strip t), strip v)
           \<in> set (map (\<lambda>r. (ccm_customer_contact_id r, ccm_type r, ccm_value r))
                    (customer_contact_comm_methods (working s)))"
  then show "fst (get_customer_contact_comm_method_id cid t v s)
          = Inl (IntegrityError uq_contact_comm_type_value_failed)"
    using none
    by (simp add: get_customer_contact_comm_method_id_def contact_comm_method_from_rows_def
        uuid4_def insert_customer_contact_def insert_customer_contact_comm_method_def Let_def)
  from h show "committed (snd (get_customer_contact_comm_method_id cid t v s)) = committed s"
    using none
    by (simp add: get_customer_contact_comm_method_id_def contact_comm_method_from_rows_def
        uuid4_def insert_customer_contact_def insert_customer_contact_comm_method_def Let_def)
qed

theorem sequential_contact_calls_witness:
  "working example_session = committed example_session
   \<and> select_contact_comm_methods (working example_session) ''c1''
         (lower (strip ''phone'')) (strip ''+15559990000'') = []
   \<and> fst (sequential_calls 3
            (get_customer_contact_comm_method_id ''c1'' ''phone'' ''+15559990000'') example_session)
       = [Inr (''uu'', ''u''), Inr (''uu'', ''u''), Inr (''uu'', ''u'')]
   \<and> committed (snd (sequential_calls 3
            (get_customer_contact_comm_method_id ''c1'' ''phone'' ''+15559990000'') example_session))
       = example_db
           \<lparr>customer_contacts := customer_contacts example_db @
              [\<lparr>cc_id = ''u'', cc_customer_id = ''c1'',
                cc_first_name = None, cc_last_name = None\<rparr>],
            customer_contact_comm_methods := customer_contact_comm_methods example_db @
              [\<lparr>ccm_id = ''uu'', ccm_customer_contact_id = ''u'',
                ccm_type = ''phone'', ccm_value = ''+15559990000''\<rparr>]\<rparr>
   \<and> uuid_source (example_session\<lparr>uuid_source := (\<lambda>n. ''k1'')\<rparr>) 0
        \<in> set (map cc_id (customer_contacts
                  (working (example_session\<lparr>uuid_source := (\<lambda>n. ''k1'')\<rparr>))))
   \<and> fst (get_customer_contact_comm_method_id ''c1'' ''phone'' ''+15559990000''
            (example_session\<lparr>uuid_source := (\<lambda>n. ''k1'')\<rparr>))
       = Inl (IntegrityError ''UNIQUE constraint failed: customer_contacts.id'')
   \<and> working orphan_session = committed orphan_session
   \<and> select_contact_comm_methods (working orphan_session) ''c1''
         (lower (strip ''phone'')) (strip ''+15559990000'') = []
   \<and> (uuid_source orphan_session 0, lower (strip ''phone''), strip ''+15559990000'')
        \<in> set (map (\<lambda>r. (ccm_customer_contact_id r, ccm_type r, ccm_value r))
                 (customer_contact_comm_methods (working orphan_session)))
   \<and> fst (get_customer_contact_comm_method_id ''c1'' ''phone'' ''+15559990000'' orphan_session)
       = Inl (IntegrityError uq_contact_comm_type_value_failed)
   \<and> committed (snd (get_customer_contact_comm_method_id ''c1'' ''phone'' ''+15559990000''
                        orphan_session)) = orphan_db"
proof -
  let ?s2 = "example_session\<lparr>uuid_source := (\<lambda>n. ''k1'')\<rparr>"
  have a: "working example_session = committed example_session"
    by (simp add: example_session_def)
  have a2: "working ?s2 = committed ?s2"
    by (simp add: example_session_def)
  have n: "select_contact_comm_methods (working example_session) ''c1''
         (lower (strip ''phone'')) (strip ''+15559990000'') = []"
    by (simp add: example_defs string_defs select_contact_comm_methods_def)
  have n2: "select_contact_comm_methods (working ?s2) ''c1''
         (lower (strip ''phone'')) (strip ''+15559990000'') = []"
    using n by (simp add: example_session_def)
  have h1: "ContactType (lower (strip ''phone'')) = Inr (lower (strip ''phone''))
     \<and> uuid_source example_session 0
          \<notin> set (map cc_id (customer_contacts (working example_session)))
     \<and> uuid_source example_session 0
          \<notin> set (map ccm_customer_contact_id
                    (customer_contact_comm_methods (working example_session)))
     \<and> uuid_source example_session 1
          \<notin> set (map ccm_id (customer_contact_comm_methods (working example_session)))"
    by (simp add: example_defs string_defs ContactType_def)
  have h2: "uuid_source ?s2 0 \<in> set (map cc_id (customer_contacts (working ?s2)))"
    by (simp add: example_defs)
  note t1 = sequential_contact_calls [OF a n, of 2]
  note t2 = sequential_contact_calls [OF a2 n2, of 0]
  have ev: "uuid_source example_session 0 = ''u''" "uuid_source example_session 1 = ''uu''"
    "committed example_session = example_db"
    "lower (strip ''phone'') = ''phone''" "strip ''+15559990000'' = ''+15559990000''"
    by (simp_all add: example_session_def example_uuids_def string_defs)
  have three: "Suc 2 = 3" by simp
  have r3: "replicate 3 x = [x, x, x]" for x :: "exn + string \<times> string"
    by (simp add: numeral_3_eq_3)
  have c1: "fst (sequential_calls (Suc 2)
            (get_customer_contact_comm_method_id ''c1'' ''phone'' ''+15559990000'') example_session)
       = replicate (Suc 2) (Inr (uuid_source example_session 1, uuid_source example_session 0))"
    using t1 h1 by blast
  then have c1': "fst (sequential_calls 3
            (get_customer_contact_comm_method_id ''c1'' ''phone'' ''+15559990000'') example_session)
       = [Inr (''uu'', ''u''), Inr (''uu'', ''u''), Inr (''uu'', ''u'')]"
    by (simp only: ev three r3)
  have c1s: "committed (snd (sequential_calls (Suc 2)
            (get_customer_contact_comm_method_id ''c1'' ''phone'' ''+15559990000'') example_session))
       = (committed example_session)
           \<lparr>customer_contacts := customer_contacts (committed example_session) @
              [\<lparr>cc_id = uuid_source example_session 0, cc_customer_id = ''c1'',
                cc_first_name = None, cc_last_name = None\<rparr>],
            customer_contact_comm_methods :=
              customer_contact_comm_methods (committed example_session) @
              [\<lparr>ccm_id = uuid_source example_session 1,
                ccm_customer_contact_id = uuid_source example_session 0,
                ccm_type = lower (strip ''phone''), ccm_value = strip ''+15559990000''\<rparr>]\<rparr>"
    using t1 h1 by blast
  then have c1s': "committed (snd (sequential_calls 3
            (get_customer_contact_comm_method_id ''c1'' ''phone'' ''+15559990000'') example_session))
       = example_db
           \<lparr>customer_contacts := customer_contacts example_db @
              [\<lparr>cc_id = ''u'', cc_customer_id = ''c1'',
                cc_first_name = None, cc_last_name = None\<rparr>],
            customer_contact_comm_methods := customer_contact_comm_methods example_db @
              [\<lparr>ccm_id = ''uu'', ccm_customer_contact_id = ''u'',
                ccm_type = ''phone'', ccm_value = ''+15559990000''\<rparr>]\<rparr>"
    by (simp only: ev three)
  have c2: "get_customer_contact_comm_method_id ''c1'' ''phone'' ''+15559990000'' ?s2
       = (Inl (IntegrityError ''UNIQUE constraint failed: customer_contacts.id''),
          ?s2\<lparr>uuid_source := (\<lambda>n. uuid_source ?s2 (Suc n))\<rparr>)"
    using t2 h2 by blast
  then have c2': "fst (get_customer_contact_comm_method_id ''c1'' ''phone'' ''+15559990000'' ?s2)
       = Inl (IntegrityError ''UNIQUE constraint failed: customer_contacts.id'')"
    by (simp only: fst_conv)
  have a3: "working orphan_session = committed orphan_session"
    by (simp add: orphan_session_def)
  have n3: "select_contact_comm_methods (working orphan_session) ''c1''
         (lower (strip ''phone'')) (strip ''+15559990000'') = []"
    by (simp add: example_defs string_defs select_contact_comm_methods_def)
  have h3: "ContactType (lower (strip ''phone'')) = Inr (lower (strip ''phone''))
      \<and> uuid_source orphan_session 0
           \<notin> set (map cc_id (customer_contacts (working orphan_session)))
      \<and> uuid_source orphan_session 1
           \<notin> set (map ccm_id (customer_contact_comm_methods (working orphan_session)))
      \<and> (uuid_source orphan_session 0, lower (strip ''phone''), strip ''+15559990000'')
           \<in> set (map (\<lambda>r. (ccm_customer_contact_id r, ccm_type r, ccm_value r))
                    (customer_contact_comm_methods (working orphan_session)))"
    by (simp add: example_defs string_defs ContactType_def)
  then have h3': "(uuid_source orphan_session 0, lower (strip ''phone''), strip ''+15559990000'')
           \<in> set (map (\<lambda>r. (ccm_customer_contact_id r, ccm_type r, ccm_value r))
                    (customer_contact_comm_methods (working orphan_session)))"
    by blast
  note t3 = sequential_contact_calls [OF a3 n3, of 0]
  from t3 h3
  have c3: "fst (get_customer_contact_comm_method_id ''c1'' ''phone'' ''+15559990000''
                   orphan_session)
       = Inl (IntegrityError uq_contact_comm_type_value_failed)"
    by blast
  from t3 h3
  have "committed (snd (get_customer_contact_comm_method_id ''c1'' ''phone'' ''+15559990000''
                        orphan_session)) = committed orphan_session"
    by blast
  then have c3s: "committed (snd (get_customer_contact_comm_method_id ''c1'' ''phone''
                        ''+15559990000'' orphan_session)) = orphan_db"
    by (simp add: orphan_session_def)
  from a n c1' c1s' h2 c2' a3 n3 h3' c3 c3s show ?thesis by blast
qed

text \<open>
  Claim C2 as stated fails. Two requests for the same unseen contact
  (customer c1, phone +15559990000) overlap so that both run their SELECT, which finds
  nothing, before either inserts. Both then insert: the database gains two contacts and
  two comm methods, no constraint objects, and the two calls return different ids.
\<close>

theorem overlapping_calls_counterexample:
  "select_contact_comm_methods (working example_session) ''c1'' ''phone'' ''+15559990000'' = []
   \<and> fst (two_overlapping_calls ''c1'' ''phone'' ''+15559990000'' example_session)
       = Inr (''uu'', ''u'')
   \<and> fst (snd (two_overlapping_calls ''c1'' ''phone'' ''+15559990000'' example_session))
       = Inr (''uuuu'', ''uuu'')
   \<and> committed (snd (snd (two_overlapping_calls ''c1'' ''phone'' ''+15559990000'' example_session)))
       = example_db
           \<lparr>customer_contacts := customer_contacts example_db @
              [\<lparr>cc_id = ''u'', cc_customer_id = ''c1'',
                cc_first_name = None, cc_last_name = None\<rparr>,
               \<lparr>cc_id = ''uuu'', cc_customer_id = ''c1'',
                cc_first_name = None, cc_last_name = None\<rparr>],
            customer_contact_comm_methods := customer_contact_comm_methods example_db @
              [\<lparr>ccm_id = ''uu'', ccm_customer_contact_id = ''u'',
                ccm_type = ''phone'', ccm_value = ''+15559990000''\<rparr>,
               \<lparr>ccm_id = ''uuuu'', ccm_customer_contact_id = ''uuu'',
                ccm_type = ''phone'', ccm_value = ''+15559990000''\<rparr>]\<rparr>"
  by (simp add: two_overlapping_calls_def example_defs string_defs select_contact_comm_methods_def
      contact_comm_method_from_rows_def uuid4_def insert_customer_contact_def
      insert_customer_contact_comm_method_def ContactType_def commit_def Let_def)

section \<open>The examples, step by step\<close>

lemmas library_defs = example_library_def timeout_library_def rejecting_library_def
  requests_timeout_library_def

lemmas payload_defs = sms_from_jane_def sms_to_jane_def empty_email_to_jane_def dict_get_def

lemmas validate_defs = validate_payload_def check_one_of_fields_def field_errors_def
  type_errors_def replace_Z_def SMS_PAYLOAD_FIELDS_def EMAIL_PAYLOAD_FIELDS_def

lemmas db_defs = get_customer_comm_method_id_def select_customer_comm_methods_def
  get_customer_contact_comm_method_id_def select_contact_comm_methods_def
  contact_comm_method_from_rows_def get_conversation_id_def select_conversations_def
  save_message_def uuid4_def commit_def rollback_def insert_customer_contact_def
  insert_customer_contact_comm_method_def insert_conversation_def insert_message_def
  ContactType_def Let_def

lemma get_participants_unfold:
  "get_participants data direction ct s =
     (case (case (if direction = ''inbound'' then dict_get data ''to'' else dict_get data ''from'') of
              JStr v \<Rightarrow> get_customer_comm_method_id ct v s
            | _ \<Rightarrow> (Inl (AttributeError ''strip''), s)) of
        (Inl e, s1) \<Rightarrow> (Inl e, s1)
      | (Inr (m, c), s1) \<Rightarrow>
          (case (case (if direction = ''inbound'' then dict_get data ''from''
                       else dict_get data ''to'') of
                   JStr v \<Rightarrow> get_customer_contact_comm_method_id c ct v s1
                 | _ \<Rightarrow> (Inl (AttributeError ''strip''), s1)) of
             (Inl e, s2) \<Rightarrow> (Inl e, s2)
           | (Inr (n, k), s2) \<Rightarrow> (Inr (m, n, c, k, join '','' (sort [c, k])), s2)))"
  by (simp add: get_participants_def Let_def)

lemma validate_sms_to_jane:
  "validate_payload (lib_fromisoformat example_library) sms_to_jane
     (filter (\<lambda>f. pf_field f \<noteq> ''messaging_provider_id'') SMS_PAYLOAD_FIELDS) None = Inr ()"
  by (simp add: library_defs payload_defs validate_defs string_defs)

lemma validate_sms_from_jane:
  "validate_payload (lib_fromisoformat example_library) sms_from_jane SMS_PAYLOAD_FIELDS None
     = Inr ()"
  by (simp add: library_defs payload_defs validate_defs string_defs)

lemma validate_empty_email:
  "validate_payload (lib_fromisoformat example_library)
     (empty_email_to_jane(''type'' \<mapsto> JStr ''email''))
     (filter (\<lambda>f. pf_field f \<noteq> ''xillio_id'') EMAIL_PAYLOAD_FIELDS) None = Inr ()"
  by (simp add: library_defs payload_defs validate_defs string_defs)

lemma validate_empty_inbound_email:
  "validate_payload (lib_fromisoformat example_library)
     (empty_email_to_jane(''xillio_id'' \<mapsto> JStr ''x1'', ''type'' \<mapsto> JStr ''email''))
     EMAIL_PAYLOAD_FIELDS (Some [''body'', ''attachments''])
   = Inl (HTTPException 400
            ''one of the following fields must be provided in payload: body, attachments'')"
  by (simp add: library_defs payload_defs validate_defs string_defs)

lemma participants_sms_to_jane:
  "get_participants sms_to_jane ''outbound'' ''phone'' example_session
     = (Inr (''m1'', ''n1'', ''c1'', ''k1'', ''c1,k1''), example_session)"
  by (simp add: get_participants_unfold payload_defs db_defs example_defs string_defs)


lemma participants_empty_email:
  "get_participants (empty_email_to_jane(''type'' \<mapsto> JStr ''email'')) ''outbound'' ''email''
     example_session
     = (Inr (''m2'', ''n2'', ''c1'', ''k1'', ''c1,k1''), example_session)"
  by (simp add: get_participants_unfold payload_defs db_defs example_defs string_defs)

lemma shared_number_matches_twice:
  "select_customer_comm_methods (working shared_numbers_session)
     (lower (strip ''phone'')) (strip ''+12155550000'') = [(''m1'', ''c1''), (''m6'', ''c2'')]"
  by (simp add: select_customer_comm_methods_def example_defs string_defs)

lemma delivery_times_out:
  "api_retry_with_backoff (lib_sleep timeout_library)
     (send_message (lib_requests_post timeout_library) url data) []
   = (Inr False, [Attempt, Slept 5, Attempt, Slept 10, Attempt, Slept 20])"
  by (simp add: api_retry_unfold library_defs send_message_def RETRY_DELAY_def)

lemma delivery_rejected:
  "api_retry_with_backoff (lib_sleep rejecting_library)
     (send_message (lib_requests_post rejecting_library) url data) []
   = (Inr False, [Attempt])"
  by (simp add: api_retry_unfold library_defs send_message_def RETRY_DELAY_def)

lemma delivery_succeeds:
  "api_retry_with_backoff (lib_sleep example_library)
     (send_message (lib_requests_post example_library) url data) []
   = (Inr True, [Attempt])"
  by (simp add: api_retry_unfold library_defs send_message_def RETRY_DELAY_def)

lemma conversation_c1_k1:
  "get_conversation_id ''c1'' ''k1'' ''c1,k1'' example_session
     = (Inr ''u'',
        example_session
          \<lparr>committed := example_db\<lparr>conversations :=
              [\<lparr>cv_id = ''u'', cv_customer_id = ''c1'', cv_customer_contact_id = ''k1'',
                cv_participants_key = ''c1,k1''\<rparr>]\<rparr>,
           working := example_db\<lparr>conversations :=
              [\<lparr>cv_id = ''u'', cv_customer_id = ''c1'', cv_customer_contact_id = ''k1'',
                cv_participants_key = ''c1,k1''\<rparr>]\<rparr>,
           uuid_source := (\<lambda>n. example_uuids (Suc n))\<rparr>)"
  by (simp add: db_defs example_defs)

lemma sms_to_jane_sent:
  "fst (process_outbound_message example_library sms_to_jane ''phone''
          (filter (\<lambda>f. pf_field f \<noteq> ''messaging_provider_id'') SMS_PAYLOAD_FIELDS)
          SMS_OUTBOUND_URL example_session [])
     = (Message_sent ''uu'', 200)
   \<and> map m_id (messages (committed (fst (snd
        (process_outbound_message example_library sms_to_jane ''phone''
          (filter (\<lambda>f. pf_field f \<noteq> ''messaging_provider_id'') SMS_PAYLOAD_FIELDS)
          SMS_OUTBOUND_URL example_session []))))) = [''uu'']"
  apply (simp only: process_outbound_message_def outbound_try_def validate_sms_to_jane
      participants_sms_to_jane delivery_succeeds conversation_c1_k1 sum.case prod.case
      simp_thms if_True if_False)
  apply (simp add: create_message_def save_message_def uuid4_def insert_message_def commit_def
      payload_defs library_defs replace_Z_def example_defs Let_def)
  done

lemma empty_email_sent:
  "process_outbound_message example_library (empty_email_to_jane(''type'' \<mapsto> JStr ''email''))
     ''email'' (filter (\<lambda>f. pf_field f \<noteq> ''xillio_id'') EMAIL_PAYLOAD_FIELDS)
     EMAIL_OUTBOUND_URL example_session []
   = ((Message_sent ''uu'', 200),
      example_session
        \<lparr>committed := example_db
           \<lparr>conversations :=
              [\<lparr>cv_id = ''u'', cv_customer_id = ''c1'', cv_customer_contact_id = ''k1'',
                cv_participants_key = ''c1,k1''\<rparr>],
            messages :=
              [\<lparr>m_id = ''uu'', m_conversation_id = ''u'',
                m_from_customer_comm_id = Some ''m2'', m_to_customer_comm_id = None,
                m_from_contact_comm_id = None, m_to_contact_comm_id = Some ''n2'',
                m_messaging_provider_id = JNull, m_message_type = JStr ''email'',
                m_body = JNull, m_attachments = None,
                m_timestamp = ''2024-11-01T14:00:00+00:00''\<rparr>]\<rparr>,
         working := example_db
           \<lparr>conversations :=
              [\<lparr>cv_id = ''u'', cv_customer_id = ''c1'', cv_customer_contact_id = ''k1'',
                cv_participants_key = ''c1,k1''\<rparr>],
            messages :=
              [\<lparr>m_id = ''uu'', m_conversation_id = ''u'',
                m_from_customer_comm_id = Some ''m2'', m_to_customer_comm_id = None,
                m_from_contact_comm_id = None, m_to_contact_comm_id = Some ''n2'',
                m_messaging_provider_id = JNull, m_message_type = JStr ''email'',
                m_body = JNull, m_attachments = None,
                m_timestamp = ''2024-11-01T14:00:00+00:00''\<rparr>]\<rparr>,
         uuid_source := (\<lambda>n. example_uuids (Suc (Suc n)))\<rparr>,
      [Attempt])"
  apply (simp only: process_outbound_message_def outbound_try_def validate_empty_email
      participants_empty_email delivery_succeeds conversation_c1_k1 sum.case prod.case
      simp_thms if_True if_False)
  apply (simp add: create_message_def save_message_def uuid4_def insert_message_def commit_def
      payload_defs library_defs replace_Z_def example_defs Let_def)
  done

lemma participants_shared_number_inbound:
  "get_participants sms_from_jane ''inbound'' ''phone'' shared_numbers_session
     = (Inl (ValueError
          ''multiple customer communication methods found for the same value: +12155550000''),
        shared_numbers_session)"
  by (simp add: get_participants_unfold payload_defs db_defs example_defs string_defs)

lemma participants_shared_number_outbound:
  "get_participants sms_to_jane ''outbound'' ''phone'' shared_numbers_session
     = (Inl (ValueError
          ''multiple customer communication methods found for the same value: +12155550000''),
        shared_numbers_session)"
  by (simp add: get_participants_unfold payload_defs db_defs example_defs string_defs)

lemma inbound_try_shared_number:
  "inbound_try example_library sms_from_jane ''phone'' SMS_PAYLOAD_FIELDS None
       shared_numbers_session
     = (Inl (ValueError
          ''multiple customer communication methods found for the same value: +12155550000''),
        shared_numbers_session)"
  by (simp only: inbound_try_def validate_sms_from_jane participants_shared_number_inbound
      sum.case prod.case)

lemma outbound_try_shared_number:
  "outbound_try example_library sms_to_jane ''phone''
       (filter (\<lambda>f. pf_field f \<noteq> ''messaging_provider_id'') SMS_PAYLOAD_FIELDS)
       SMS_OUTBOUND_URL shared_numbers_session []
     = (Inl (ValueError
          ''multiple customer communication methods found for the same value: +12155550000''),
        shared_numbers_session, [])"
  by (simp only: outbound_try_def validate_sms_to_jane participants_shared_number_outbound
      sum.case prod.case)

section \<open>Properties of the conversation resolver\<close>










section \<open>Properties of the request handlers\<close>

lemma from_rows_messages:
  assumes "working s = committed s"
  shows "messages (committed (snd (contact_comm_method_from_rows rows cid ct v s)))
           = messages (committed s)
       \<and> messages (working (snd (contact_comm_method_from_rows rows cid ct v s)))
           = messages (working s)"
  using assms
  by (auto simp: contact_comm_method_from_rows_def uuid4_def insert_customer_contact_def
        insert_customer_contact_comm_method_def commit_def Let_def ContactType_def
        split: sum.splits if_splits)

lemma get_participants_messages:
  assumes clean: "working s = committed s"
  shows "messages (committed (snd (get_participants data direction ct s)))
           = messages (committed s)
       \<and> messages (working (snd (get_participants data direction ct s)))
           = messages (working s)"
proof -
  define a1 where "a1 = (if direction = ''inbound'' then dict_get data ''to''
                         else dict_get data ''from'')"
  define a2 where "a2 = (if direction = ''inbound'' then dict_get data ''from''
                         else dict_get data ''to'')"
  define r1 where "r1 = (case a1 of JStr v \<Rightarrow> get_customer_comm_method_id ct v s
                         | _ \<Rightarrow> (Inl (AttributeError ''strip''), s))"
  have contact: "messages (committed (snd (get_customer_contact_comm_method_id cid ct v s)))
           = messages (committed s)
       \<and> messages (working (snd (get_customer_contact_comm_method_id cid ct v s)))
           = messages (working s)" for cid v
    unfolding get_customer_contact_comm_method_id_def Let_def
    using clean by (rule from_rows_messages)
  have customer: "snd (get_customer_comm_method_id ct v s) = s" for v
    by (simp add: get_customer_comm_method_id_def Let_def)
  have r1s: "snd r1 = s"
    unfolding r1_def by (cases a1) (simp_all add: customer)
  have unfold: "get_participants data direction ct s =
     (case r1 of
        (Inl e, s1) \<Rightarrow> (Inl e, s1)
      | (Inr (m, c), s1) \<Rightarrow>
          (case (case a2 of
                   JStr v \<Rightarrow> get_customer_contact_comm_method_id c ct v s1
                 | _ \<Rightarrow> (Inl (AttributeError ''strip''), s1)) of
             (Inl e, s2) \<Rightarrow> (Inl e, s2)
           | (Inr (n, k), s2) \<Rightarrow> (Inr (m, n, c, k, join '','' (sort [c, k])), s2)))"
    unfolding r1_def a1_def a2_def by (rule get_participants_unfold)
  obtain x s1 where r1: "r1 = (x, s1)" by (cases r1)
  with r1s have s1: "s1 = s" by simp
  show ?thesis
  proof (cases x)
    case (Inl e)
    then show ?thesis unfolding unfold r1 s1 by simp
  next
    case (Inr mc)
    obtain m c where mc: "mc = (m, c)" by (cases mc)
    define r2 where "r2 = (case a2 of
                   JStr v \<Rightarrow> get_customer_contact_comm_method_id c ct v s
                 | _ \<Rightarrow> (Inl (AttributeError ''strip''), s))"
    have r2: "messages (committed (snd r2)) = messages (committed s)
       \<and> messages (working (snd r2)) = messages (working s)"
      unfolding r2_def by (cases a2) (simp_all add: contact)
    have "snd (get_participants data direction ct s) = snd r2"
      unfolding unfold r1 s1 Inr mc
      by (cases r2) (auto simp: r2_def split: sum.splits)
    with r2 show ?thesis by simp
  qed
qed

lemma outbound_delivery_failed:
  assumes valid: "validate_payload (lib_fromisoformat lib) data payload_fields None = Inr ()"
      and parts: "get_participants data ''outbound'' comm_type s = (Inr p, s1)"
      and failed: "fst (api_retry_with_backoff (lib_sleep lib)
                     (send_message (lib_requests_post lib) outbound_url data) w) = Inr False"
  shows "process_outbound_message lib data comm_type payload_fields outbound_url s w =
           ((Failed_to_send, 500), s1,
            snd (api_retry_with_backoff (lib_sleep lib)
                   (send_message (lib_requests_post lib) outbound_url data) w))"
proof -
  obtain m n c k key where p: "p = (m, n, c, k, key)" by (cases p)
  obtain w1 where r: "api_retry_with_backoff (lib_sleep lib)
                     (send_message (lib_requests_post lib) outbound_url data) w = (Inr False, w1)"
    using failed by (cases "api_retry_with_backoff (lib_sleep lib)
                     (send_message (lib_requests_post lib) outbound_url data) w") simp
  show ?thesis
    using valid parts by (simp add: process_outbound_message_def outbound_try_def p r)
qed

lemma outbound_without_delivery_keeps_messages:
  assumes clean: "working s = committed s"
      and not_sent: "fst (api_retry_with_backoff (lib_sleep lib)
                     (send_message (lib_requests_post lib) outbound_url data) w) \<noteq> Inr True"
  shows "messages (committed (fst (snd
           (process_outbound_message lib data comm_type payload_fields outbound_url s w))))
         = messages (committed s)"
proof (cases "validate_payload (lib_fromisoformat lib) data payload_fields None")
  case (Inl e)
  then show ?thesis
    by (simp add: process_outbound_message_def outbound_try_def)
next
  case (Inr u)
  obtain x s1 where parts: "get_participants data ''outbound'' comm_type s = (x, s1)"
    by (cases "get_participants data ''outbound'' comm_type s")
  from get_participants_messages [OF clean, of data "''outbound''" comm_type] parts
  have keep: "messages (committed s1) = messages (committed s)" by simp
  show ?thesis
  proof (cases x)
    case (Inl e)
    with Inr parts keep show ?thesis
      by (simp add: process_outbound_message_def outbound_try_def)
  next
    case p: (Inr p)
    obtain m n c k key where tuple: "p = (m, n, c, k, key)" by (cases p)
    obtain y w1 where r: "api_retry_with_backoff (lib_sleep lib)
                     (send_message (lib_requests_post lib) outbound_url data) w = (y, w1)"
      by (cases "api_retry_with_backoff (lib_sleep lib)
                     (send_message (lib_requests_post lib) outbound_url data) w")
    with not_sent have y: "y \<noteq> Inr True" by simp
    show ?thesis
    proof (cases y)
      case (Inl e)
      with Inr parts p tuple r keep show ?thesis
        by (simp add: process_outbound_message_def outbound_try_def)
    next
      case b: (Inr b)
      with y have "b = False" by simp
      with Inr parts p tuple r b keep show ?thesis
        by (simp add: process_outbound_message_def outbound_try_def)
    qed
  qed
qed

text \<open>
  Claim C1. An outbound request in a session with nothing uncommitted. If validation and
  the resolution of the participants succeed and the retry wrapper reports failure
  (which it does for exhausted timeouts and for a non-timeout error alike), the handler
  answers 500 with the "failed to send" body, in the session the resolution left, and
  the messages table is what it was. Conversely, whenever the request has changed the
  committed messages table, the retry wrapper had returned \<open>True\<close>.
\<close>

theorem delivery_before_record:
  assumes clean: "working s = committed s"
  shows
   "(validate_payload (lib_fromisoformat lib) data payload_fields None = Inr ()
      \<and> get_participants data ''outbound'' comm_type s = (Inr p, s1)
      \<and> fst (api_retry_with_backoff (lib_sleep lib)
               (send_message (lib_requests_post lib) outbound_url data) w) = Inr False
     \<longrightarrow> fst (process_outbound_message lib data comm_type payload_fields outbound_url s w)
           = (Failed_to_send, 500)
         \<and> fst (snd (process_outbound_message lib data comm_type payload_fields outbound_url s w))
           = s1
         \<and> messages (committed s1) = messages (committed s)
         \<and> messages (working s1) = messages (working s))
    \<and> (messages (committed (fst (snd
           (process_outbound_message lib data comm_type payload_fields outbound_url s w))))
          \<noteq> messages (committed s)
       \<longrightarrow> fst (api_retry_with_backoff (lib_sleep lib)
               (send_message (lib_requests_post lib) outbound_url data) w) = Inr True)"
proof (intro conjI impI)
  assume h: "validate_payload (lib_fromisoformat lib) data payload_fields None = Inr ()
      \<and> get_participants data ''outbound'' comm_type s = (Inr p, s1)
      \<and> fst (api_retry_with_backoff (lib_sleep lib)
               (send_message (lib_requests_post lib) outbound_url data) w) = Inr False"
  then have result: "process_outbound_message lib data comm_type payload_fields outbound_url s w =
           ((Failed_to_send, 500), s1,
            snd (api_retry_with_backoff (lib_sleep lib)
                   (send_message (lib_requests_post lib) outbound_url data) w))"
    by (intro outbound_delivery_failed) simp_all
  show "fst (process_outbound_message lib data comm_type payload_fields outbound_url s w)
           = (Failed_to_send, 500)"
    by (simp only: result fst_conv)
  show "fst (snd (process_outbound_message lib data comm_type payload_fields outbound_url s w))
           = s1"
    by (simp only: result fst_conv snd_conv)
  from h get_participants_messages [OF clean, of data "''outbound''" comm_type]
  show "messages (committed s1) = messages (committed s)"
    and "messages (working s1) = messages (working s)"
    by simp_all
next
  assume "messages (committed (fst (snd
           (process_outbound_message lib data comm_type payload_fields outbound_url s w))))
          \<noteq> messages (committed s)"
  with outbound_without_delivery_keeps_messages [OF clean, of lib outbound_url data w
      comm_type payload_fields]
  show "fst (api_retry_with_backoff (lib_sleep lib)
               (send_message (lib_requests_post lib) outbound_url data) w) = Inr True"
    by blast
qed

theorem delivery_before_record_witness:
  "working example_session = committed example_session
   \<and> validate_payload (lib_fromisoformat timeout_library) sms_to_jane
        (filter (\<lambda>f. pf_field f \<noteq> ''messaging_provider_id'') SMS_PAYLOAD_FIELDS) None = Inr ()
   \<and> get_participants sms_to_jane ''outbound'' ''phone'' example_session
        = (Inr (''m1'', ''n1'', ''c1'', ''k1'', ''c1,k1''), example_session)
   \<and> api_retry_with_backoff (lib_sleep timeout_library)
        (send_message (lib_requests_post timeout_library) SMS_OUTBOUND_URL sms_to_jane) []
        = (Inr False, [Attempt, Slept 5, Attempt, Slept 10, Attempt, Slept 20])
   \<and> fst (process_outbound_message timeout_library sms_to_jane ''phone''
             (filter (\<lambda>f. pf_field f \<noteq> ''messaging_provider_id'') SMS_PAYLOAD_FIELDS)
             SMS_OUTBOUND_URL example_session [])
        = (Failed_to_send, 500)
   \<and> messages (committed (fst (snd (process_outbound_message timeout_library sms_to_jane ''phone''
             (filter (\<lambda>f. pf_field f \<noteq> ''messaging_provider_id'') SMS_PAYLOAD_FIELDS)
             SMS_OUTBOUND_URL example_session [])))) = []
   \<and> api_retry_with_backoff (lib_sleep rejecting_library)
        (send_message (lib_requests_post rejecting_library) SMS_OUTBOUND_URL sms_to_jane) []
        = (Inr False, [Attempt])
   \<and> fst (process_outbound_message rejecting_library sms_to_jane ''phone''
             (filter (\<lambda>f. pf_field f \<noteq> ''messaging_provider_id'') SMS_PAYLOAD_FIELDS)
             SMS_OUTBOUND_URL example_session [])
        = (Failed_to_send, 500)
   \<and> messages (committed (fst (snd (process_outbound_message example_library sms_to_jane ''phone''
             (filter (\<lambda>f. pf_field f \<noteq> ''messaging_provider_id'') SMS_PAYLOAD_FIELDS)
             SMS_OUTBOUND_URL example_session []))))
        \<noteq> messages (committed example_session)
   \<and> fst (api_retry_with_backoff (lib_sleep example_library)
             (send_message (lib_requests_post example_library) SMS_OUTBOUND_URL sms_to_jane) [])
        = Inr True"
proof -
  let ?fields = "filter (\<lambda>f. pf_field f \<noteq> ''messaging_provider_id'') SMS_PAYLOAD_FIELDS"
  let ?p = "(''m1'', ''n1'', ''c1'', ''k1'', ''c1,k1'')"
  have a: "working example_session = committed example_session"
    by (simp add: example_session_def)
  note t1 = delivery_before_record
    [OF a, where lib = timeout_library and data = sms_to_jane and payload_fields = ?fields
       and comm_type = "''phone''" and p = ?p and ?s1.0 = example_session
       and outbound_url = SMS_OUTBOUND_URL and w = "[]"]
  note t2 = delivery_before_record
    [OF a, where lib = rejecting_library and data = sms_to_jane and payload_fields = ?fields
       and comm_type = "''phone''" and p = ?p and ?s1.0 = example_session
       and outbound_url = SMS_OUTBOUND_URL and w = "[]"]
  note t3 = delivery_before_record
    [OF a, where lib = example_library and data = sms_to_jane and payload_fields = ?fields
       and comm_type = "''phone''" and p = ?p and ?s1.0 = example_session
       and outbound_url = SMS_OUTBOUND_URL and w = "[]"]
  have iso: "lib_fromisoformat timeout_library = lib_fromisoformat example_library"
    "lib_fromisoformat rejecting_library = lib_fromisoformat example_library"
    by (simp_all add: library_defs)
  have v1: "validate_payload (lib_fromisoformat timeout_library) sms_to_jane ?fields None = Inr ()"
    by (simp only: iso validate_sms_to_jane)
  have v2: "validate_payload (lib_fromisoformat rejecting_library) sms_to_jane ?fields None = Inr ()"
    by (simp only: iso validate_sms_to_jane)
  note g = participants_sms_to_jane
  note d1 = delivery_times_out [of SMS_OUTBOUND_URL sms_to_jane]
  note d2 = delivery_rejected [of SMS_OUTBOUND_URL sms_to_jane]
  note d3 = delivery_succeeds [of SMS_OUTBOUND_URL sms_to_jane]
  have f1: "fst (api_retry_with_backoff (lib_sleep timeout_library)
        (send_message (lib_requests_post timeout_library) SMS_OUTBOUND_URL sms_to_jane) [])
        = Inr False"
    by (simp only: d1 fst_conv)
  have f2: "fst (api_retry_with_backoff (lib_sleep rejecting_library)
        (send_message (lib_requests_post rejecting_library) SMS_OUTBOUND_URL sms_to_jane) [])
        = Inr False"
    by (simp only: d2 fst_conv)
  have m0: "messages (committed example_session) = []"
    by (simp add: example_defs)
  from t1 v1 g f1 have c1: "fst (process_outbound_message timeout_library sms_to_jane ''phone''
             ?fields SMS_OUTBOUND_URL example_session []) = (Failed_to_send, 500)"
    by blast
  from t1 v1 g f1
  have "fst (snd (process_outbound_message timeout_library sms_to_jane ''phone''
             ?fields SMS_OUTBOUND_URL example_session [])) = example_session"
    by blast
  then have c1m: "messages (committed (fst (snd (process_outbound_message timeout_library
             sms_to_jane ''phone'' ?fields SMS_OUTBOUND_URL example_session [])))) = []"
    by (simp only: m0)
  from t2 v2 g f2 have c2: "fst (process_outbound_message rejecting_library sms_to_jane ''phone''
             ?fields SMS_OUTBOUND_URL example_session []) = (Failed_to_send, 500)"
    by blast
  have h3: "messages (committed (fst (snd (process_outbound_message example_library sms_to_jane
             ''phone'' ?fields SMS_OUTBOUND_URL example_session []))))
        \<noteq> messages (committed example_session)"
  proof
    assume "messages (committed (fst (snd (process_outbound_message example_library sms_to_jane
             ''phone'' ?fields SMS_OUTBOUND_URL example_session []))))
        = messages (committed example_session)"
    then have "map m_id (messages (committed (fst (snd (process_outbound_message example_library
             sms_to_jane ''phone'' ?fields SMS_OUTBOUND_URL example_session []))))) = []"
      by (simp only: m0 list.map)
    with sms_to_jane_sent show False by simp
  qed
  from t3 h3 have c3: "fst (api_retry_with_backoff (lib_sleep example_library)
             (send_message (lib_requests_post example_library) SMS_OUTBOUND_URL sms_to_jane) [])
        = Inr True"
    by blast
  from a v1 g d1 c1 c1m d2 c2 h3 c3 show ?thesis by blast
qed

text \<open>
  Claim C8, as the code has it. Both handlers catch every exception of their
  \<open>try\<close> block and answer 400, whatever the exception is. So a request that fails
  because more than one row matches (shown here for the customer comm method, inbound
  and outbound) is answered with status 400, the status of validation and not-found
  errors; the error text is all that tells them apart.
\<close>

theorem ambiguity_is_bad_request:
  "(inbound_try lib data comm_type payload_fields optional_fields s = (Inl e, s')
      \<longrightarrow> process_inbound_message lib data comm_type payload_fields optional_fields s
            = ((Processing_error ''inbound'' comm_type e, 400), s'))
   \<and> (outbound_try lib data comm_type payload_fields outbound_url s w = (Inl e, s', w')
      \<longrightarrow> process_outbound_message lib data comm_type payload_fields outbound_url s w
            = ((Processing_error ''outbound'' comm_type e, 400), s', w'))
   \<and> (validate_payload (lib_fromisoformat lib) data payload_fields optional_fields = Inr ()
       \<and> dict_get data ''to'' = JStr v
       \<and> length (select_customer_comm_methods (working s) (lower (strip comm_type)) (strip v)) > 1
      \<longrightarrow> process_inbound_message lib data comm_type payload_fields optional_fields s
            = ((Processing_error ''inbound'' comm_type
                  (ValueError
                     (''multiple customer communication methods found for the same value: ''
                      @ strip v)), 400), s))
   \<and> (validate_payload (lib_fromisoformat lib) data payload_fields None = Inr ()
       \<and> dict_get data ''from'' = JStr v
       \<and> length (select_customer_comm_methods (working s) (lower (strip comm_type)) (strip v)) > 1
      \<longrightarrow> process_outbound_message lib data comm_type payload_fields outbound_url s w
            = ((Processing_error ''outbound'' comm_type
                  (ValueError
                     (''multiple customer communication methods found for the same value: ''
                      @ strip v)), 400), s, w))"
proof (intro conjI impI)
  assume "inbound_try lib data comm_type payload_fields optional_fields s = (Inl e, s')"
  then show "process_inbound_message lib data comm_type payload_fields optional_fields s
            = ((Processing_error ''inbound'' comm_type e, 400), s')"
    by (simp add: process_inbound_message_def)
next
  assume "outbound_try lib data comm_type payload_fields outbound_url s w = (Inl e, s', w')"
  then show "process_outbound_message lib data comm_type payload_fields outbound_url s w
            = ((Processing_error ''outbound'' comm_type e, 400), s', w')"
    by (simp add: process_outbound_message_def)
next
  assume h: "validate_payload (lib_fromisoformat lib) data payload_fields optional_fields = Inr ()
       \<and> dict_get data ''to'' = JStr v
       \<and> length (select_customer_comm_methods (working s) (lower (strip comm_type)) (strip v)) > 1"
  then have "get_customer_comm_method_id comm_type v s
     = (Inl (ValueError (''multiple customer communication methods found for the same value: ''
                         @ strip v)), s)"
    by (auto simp: get_customer_comm_method_id_def Let_def simp del: append.simps)
  with h have "get_participants data ''inbound'' comm_type s
     = (Inl (ValueError (''multiple customer communication methods found for the same value: ''
                         @ strip v)), s)"
    by (simp add: get_participants_unfold del: append.simps)
  with h show "process_inbound_message lib data comm_type payload_fields optional_fields s
            = ((Processing_error ''inbound'' comm_type
                  (ValueError
                     (''multiple customer communication methods found for the same value: ''
                      @ strip v)), 400), s)"
    by (simp add: process_inbound_message_def inbound_try_def del: append.simps)
next
  assume h: "validate_payload (lib_fromisoformat lib) data payload_fields None = Inr ()
       \<and> dict_get data ''from'' = JStr v
       \<and> length (select_customer_comm_methods (working s) (lower (strip comm_type)) (strip v)) > 1"
  then have "get_customer_comm_method_id comm_type v s
     = (Inl (ValueError (''multiple customer communication methods found for the same value: ''
                         @ strip v)), s)"
    by (auto simp: get_customer_comm_method_id_def Let_def simp del: append.simps)
  with h have "get_participants data ''outbound'' comm_type s
     = (Inl (ValueError (''multiple customer communication methods found for the same value: ''
                         @ strip v)), s)"
    by (simp add: get_participants_unfold del: append.simps)
  with h show "process_outbound_message lib data comm_type payload_fields outbound_url s w
            = ((Processing_error ''outbound'' comm_type
                  (ValueError
                     (''multiple customer communication methods found for the same value: ''
                      @ strip v)), 400), s, w)"
    by (simp add: process_outbound_message_def outbound_try_def del: append.simps)
qed

theorem ambiguity_is_bad_request_witness:
  "inbound_try example_library sms_from_jane ''phone'' SMS_PAYLOAD_FIELDS None
       shared_numbers_session
     = (Inl (ValueError
          ''multiple customer communication methods found for the same value: +12155550000''),
        shared_numbers_session)
   \<and> outbound_try example_library sms_to_jane ''phone''
       (filter (\<lambda>f. pf_field f \<noteq> ''messaging_provider_id'') SMS_PAYLOAD_FIELDS)
       SMS_OUTBOUND_URL shared_numbers_session []
     = (Inl (ValueError
          ''multiple customer communication methods found for the same value: +12155550000''),
        shared_numbers_session, [])
   \<and> validate_payload (lib_fromisoformat example_library) sms_from_jane SMS_PAYLOAD_FIELDS None
     = Inr ()
   \<and> dict_get sms_from_jane ''to'' = JStr ''+12155550000''
   \<and> validate_payload (lib_fromisoformat example_library) sms_to_jane
        (filter (\<lambda>f. pf_field f \<noteq> ''messaging_provider_id'') SMS_PAYLOAD_FIELDS) None = Inr ()
   \<and> dict_get sms_to_jane ''from'' = JStr ''+12155550000''
   \<and> length (select_customer_comm_methods (working shared_numbers_session)
               (lower (strip ''phone'')) (strip ''+12155550000'')) > 1
   \<and> process_inbound_message example_library sms_from_jane ''phone'' SMS_PAYLOAD_FIELDS None
       shared_numbers_session
     = ((Processing_error ''inbound'' ''phone''
           (ValueError
              ''multiple customer communication methods found for the same value: +12155550000''),
         400), shared_numbers_session)
   \<and> process_outbound_message example_library sms_to_jane ''phone''
       (filter (\<lambda>f. pf_field f \<noteq> ''messaging_provider_id'') SMS_PAYLOAD_FIELDS)
       SMS_OUTBOUND_URL shared_numbers_session []
     = ((Processing_error ''outbound'' ''phone''
           (ValueError
              ''multiple customer communication methods found for the same value: +12155550000''),
         400), shared_numbers_session, [])"
proof -
  let ?fields = "filter (\<lambda>f. pf_field f \<noteq> ''messaging_provider_id'') SMS_PAYLOAD_FIELDS"
  let ?e = "ValueError
              ''multiple customer communication methods found for the same value: +12155550000''"
  note t = ambiguity_is_bad_request
    [where lib = example_library and comm_type = "''phone''" and s = shared_numbers_session
       and s' = shared_numbers_session and e = ?e and v = "''+12155550000''"
       and outbound_url = SMS_OUTBOUND_URL and w = "[]" and w' = "[]"]
  note t_in = t [where data = sms_from_jane and payload_fields = SMS_PAYLOAD_FIELDS
       and optional_fields = None]
  note t_out = t [where data = sms_to_jane and payload_fields = ?fields]
  have h1: "inbound_try example_library sms_from_jane ''phone'' SMS_PAYLOAD_FIELDS None
       shared_numbers_session = (Inl ?e, shared_numbers_session)"
    by (rule inbound_try_shared_number)
  have h2: "outbound_try example_library sms_to_jane ''phone'' ?fields
       SMS_OUTBOUND_URL shared_numbers_session [] = (Inl ?e, shared_numbers_session, [])"
    by (rule outbound_try_shared_number)
  have twice: "length (select_customer_comm_methods (working shared_numbers_session)
               (lower (strip ''phone'')) (strip ''+12155550000'')) > 1"
    by (simp only: shared_number_matches_twice) simp
  have h3: "validate_payload (lib_fromisoformat example_library) sms_from_jane
       SMS_PAYLOAD_FIELDS None = Inr ()
     \<and> dict_get sms_from_jane ''to'' = JStr ''+12155550000''
     \<and> length (select_customer_comm_methods (working shared_numbers_session)
               (lower (strip ''phone'')) (strip ''+12155550000'')) > 1"
    using validate_sms_from_jane twice by (simp add: payload_defs)
  have h4: "validate_payload (lib_fromisoformat example_library) sms_to_jane ?fields None = Inr ()
     \<and> dict_get sms_to_jane ''from'' = JStr ''+12155550000''
     \<and> length (select_customer_comm_methods (working shared_numbers_session)
               (lower (strip ''phone'')) (strip ''+12155550000'')) > 1"
    using validate_sms_to_jane twice by (simp add: payload_defs)
  from t_in h1 have c1: "process_inbound_message example_library sms_from_jane ''phone''
       SMS_PAYLOAD_FIELDS None shared_numbers_session
     = ((Processing_error ''inbound'' ''phone'' ?e, 400), shared_numbers_session)"
    by blast
  from t_out h2 have c2: "process_outbound_message example_library sms_to_jane ''phone'' ?fields
       SMS_OUTBOUND_URL shared_numbers_session []
     = ((Processing_error ''outbound'' ''phone'' ?e, 400), shared_numbers_session, [])"
    by blast
  from h1 h2 h3 h4 c1 c2 show ?thesis by blast
qed

text \<open>
  Claim C8 as stated fails. Two customers list the phone number +12155550000, which
  the constraint on (customer_id, type, value) allows. An inbound SMS to that number
  matches both rows, the lookup raises the "multiple ... found" error, and the route
  answers with status 400, not 500.
\<close>

theorem ambiguity_status_counterexample:
  "select_customer_comm_methods (working shared_numbers_session) ''phone'' ''+12155550000''
     = [(''m1'', ''c1''), (''m6'', ''c2'')]
   \<and> inbound_sms example_library (Some sms_from_jane) shared_numbers_session
     = ((Processing_error ''inbound'' ''phone''
           (ValueError
              ''multiple customer communication methods found for the same value: +12155550000''),
         400), shared_numbers_session)
   \<and> snd (fst (inbound_sms example_library (Some sms_from_jane) shared_numbers_session)) \<noteq> 500"
proof -
  have r: "rollback shared_numbers_session = shared_numbers_session"
    by (simp add: rollback_def shared_numbers_session_def)
  have p: "process_inbound_message example_library sms_from_jane ''phone'' SMS_PAYLOAD_FIELDS None
       shared_numbers_session
     = ((Processing_error ''inbound'' ''phone''
           (ValueError
              ''multiple customer communication methods found for the same value: +12155550000''),
         400), shared_numbers_session)"
    by (simp add: process_inbound_message_def inbound_try_shared_number)
  have i: "inbound_sms example_library (Some sms_from_jane) shared_numbers_session
     = ((Processing_error ''inbound'' ''phone''
           (ValueError
              ''multiple customer communication methods found for the same value: +12155550000''),
         400), shared_numbers_session)"
    by (simp add: inbound_sms_def p r)
  have s: "select_customer_comm_methods (working shared_numbers_session) ''phone'' ''+12155550000''
     = [(''m1'', ''c1''), (''m6'', ''c2'')]"
    by (simp add: select_customer_comm_methods_def example_defs)
  from i have "snd (fst (inbound_sms example_library (Some sms_from_jane) shared_numbers_session))
      = 400"
    by simp
  then have "snd (fst (inbound_sms example_library (Some sms_from_jane) shared_numbers_session))
      \<noteq> 500"
    by simp
  with s i show ?thesis by blast
qed

text \<open>
  The inbound email route does require content: with neither \<open>body\<close> nor
  \<open>attachments\<close> in the payload, validation aborts with status 400 and the session
  is left as it was.
\<close>

lemma inbound_email_needs_content:
  assumes "dict_get data ''body'' = JNull" and "dict_get data ''attachments'' = JNull"
  shows "inbound_email lib (Some data) s
     = ((Processing_error ''inbound'' ''email''
           (HTTPException 400
              ''one of the following fields must be provided in payload: body, attachments''),
         400), rollback s)"
proof -
  let ?data = "data(''type'' \<mapsto> JStr ''email'')"
  have "dict_get ?data ''body'' = JNull" "dict_get ?data ''attachments'' = JNull"
    "dict_get ?data ''type'' = JStr ''email''"
    using assms by (simp_all add: dict_get_def)
  then have "validate_payload (lib_fromisoformat lib) ?data EMAIL_PAYLOAD_FIELDS
       (Some [''body'', ''attachments''])
     = Inl (HTTPException 400
              ''one of the following fields must be provided in payload: body, attachments'')"
    by (simp add: validate_payload_def check_one_of_fields_def string_defs)
  then show ?thesis
    by (simp add: inbound_email_def process_inbound_message_def inbound_try_def)
qed

text \<open>
  Claim C9. The claim holds on the inbound route and fails on the outbound one:
  \<open>process_outbound_message\<close> calls \<open>validate_payload\<close> without the list of
  fields of which one is required, so the check is skipped. An outbound email to Jane
  with neither body nor attachments passes validation, is delivered, and is recorded:
  the route answers 200 and the messages table holds the new row, with no body and no
  attachments. The same payload on the inbound route (with its provider id) is refused
  with status 400.
\<close>

theorem empty_outbound_email_is_accepted:
  "dict_get empty_email_to_jane ''body'' = JNull
   \<and> dict_get empty_email_to_jane ''attachments'' = JNull
   \<and> fst (outbound_email example_library (Some empty_email_to_jane) example_session [])
       = (Message_sent ''uu'', 200)
   \<and> messages (committed (fst (snd
        (outbound_email example_library (Some empty_email_to_jane) example_session []))))
       = [\<lparr>m_id = ''uu'', m_conversation_id = ''u'',
           m_from_customer_comm_id = Some ''m2'', m_to_customer_comm_id = None,
           m_from_contact_comm_id = None, m_to_contact_comm_id = Some ''n2'',
           m_messaging_provider_id = JNull, m_message_type = JStr ''email'',
           m_body = JNull, m_attachments = None,
           m_timestamp = ''2024-11-01T14:00:00+00:00''\<rparr>]
   \<and> fst (inbound_email example_library
            (Some (empty_email_to_jane(''xillio_id'' \<mapsto> JStr ''x1''))) example_session)
       = (Processing_error ''inbound'' ''email''
            (HTTPException 400
               ''one of the following fields must be provided in payload: body, attachments''),
          400)"
proof -
  have b: "dict_get empty_email_to_jane ''body'' = JNull"
    "dict_get empty_email_to_jane ''attachments'' = JNull"
    by (simp_all add: payload_defs)
  have out: "fst (outbound_email example_library (Some empty_email_to_jane) example_session [])
       = (Message_sent ''uu'', 200)"
    by (simp add: outbound_email_def empty_email_sent)
  have msgs: "messages (committed (fst (snd
        (outbound_email example_library (Some empty_email_to_jane) example_session []))))
       = [\<lparr>m_id = ''uu'', m_conversation_id = ''u'',
           m_from_customer_comm_id = Some ''m2'', m_to_customer_comm_id = None,
           m_from_contact_comm_id = None, m_to_contact_comm_id = Some ''n2'',
           m_messaging_provider_id = JNull, m_message_type = JStr ''email'',
           m_body = JNull, m_attachments = None,
           m_timestamp = ''2024-11-01T14:00:00+00:00''\<rparr>]"
    by (simp add: outbound_email_def empty_email_sent rollback_def)
  have inb: "fst (inbound_email example_library
            (Some (empty_email_to_jane(''xillio_id'' \<mapsto> JStr ''x1''))) example_session)
       = (Processing_error ''inbound'' ''email''
            (HTTPException 400
               ''one of the following fields must be provided in payload: body, attachments''),
          400)"
    by (simp add: inbound_email_def process_inbound_message_def inbound_try_def
        validate_empty_inbound_email)
  from b out msgs inb show ?thesis by blast
qed

end
